theory Spec2Isabelle
  imports
    Main
    "HOL-Library.Char_ord"
    "HOL-Library.List_Lexorder"
    "HOL-Library.Product_Lexorder"
    "HOL-Library.AList"
    "HOL-Library.Monad_Syntax"
begin

section \<open>Python strings\<close>

text \<open>
  A Python \<open>str\<close> is a \<^typ>\<open>string\<close>. Each \<^typ>\<open>char\<close> stands for the code point of
  the same number, so the model covers the strings whose code points are below 256.
  The library functions the program calls on strings are written out here with the
  behaviour CPython gives them on such strings.
\<close>

definition isspace :: "char \<Rightarrow> bool" where
  \<comment> \<open>\<open>str.isspace\<close> on one character: the white space below code point 256.\<close>
  "isspace c = ((of_char c :: nat) \<in> set [9, 10, 11, 12, 13, 28, 29, 30, 31, 32, 133, 160])"

definition strip :: "string \<Rightarrow> string" where
  "strip s = rev (dropWhile isspace (rev (dropWhile isspace s)))"

definition lower_char :: "char \<Rightarrow> char" where
  "lower_char c =
     (let n = (of_char c :: nat)
      in if (65 \<le> n \<and> n \<le> 90) \<or> (192 \<le> n \<and> n \<le> 214) \<or> (216 \<le> n \<and> n \<le> 222)
         then char_of (n + 32) else c)"

definition lower :: "string \<Rightarrow> string" where
  "lower s = map lower_char s"

fun split_acc :: "string \<Rightarrow> string \<Rightarrow> string list" where
  "split_acc cur [] = (if cur = [] then [] else [rev cur])"
| "split_acc cur (c # cs) =
     (if isspace c then (if cur = [] then split_acc [] cs else rev cur # split_acc [] cs)
      else split_acc (c # cur) cs)"

definition split :: "string \<Rightarrow> string list" where
  \<comment> \<open>\<open>s.split()\<close>: the maximal runs of characters that are not white space.\<close>
  "split s = split_acc [] s"

fun split_char_acc :: "char \<Rightarrow> string \<Rightarrow> string \<Rightarrow> string list" where
  "split_char_acc sep cur [] = [rev cur]"
| "split_char_acc sep cur (c # cs) =
     (if c = sep then rev cur # split_char_acc sep [] cs else split_char_acc sep (c # cur) cs)"

definition split_char :: "char \<Rightarrow> string \<Rightarrow> string list" where
  \<comment> \<open>\<open>s.split(sep)\<close> for a separator of one character; the result is never empty.\<close>
  "split_char sep s = split_char_acc sep [] s"

definition startswith :: "string \<Rightarrow> string \<Rightarrow> bool" where
  "startswith s pre = (take (length pre) s = pre)"

fun replace_from :: "string \<Rightarrow> string \<Rightarrow> nat \<Rightarrow> string \<Rightarrow> string" where
  "replace_from old new k [] = []"
| "replace_from old new (Suc k) (c # cs) = replace_from old new k cs"
| "replace_from old new 0 (c # cs) =
     (if startswith (c # cs) old then new @ replace_from old new (length old - 1) cs
      else c # replace_from old new 0 cs)"

definition replace :: "string \<Rightarrow> string \<Rightarrow> string \<Rightarrow> string" where
  \<comment> \<open>\<open>s.replace(old, new)\<close>: one pass from the left; at each position where \<open>old\<close>
      starts, \<open>new\<close> is written and the scan resumes behind the match (the counter of
      \<^const>\<open>replace_from\<close> is the number of matched characters still to skip). An empty
      \<open>old\<close> matches before every character and at the end.\<close>
  "replace s old new =
     (if old = [] then new @ concat (map (\<lambda>c. c # new) s) else replace_from old new 0 s)"

fun join :: "string \<Rightarrow> string list \<Rightarrow> string" where
  "join sep [] = []"
| "join sep [x] = x"
| "join sep (x # y # ys) = x @ sep @ join sep (y # ys)"

definition digit_char :: "nat \<Rightarrow> char" where
  "digit_char d = char_of (48 + d)"

fun str_nat :: "nat \<Rightarrow> string" where
  "str_nat n = (if n < 10 then [digit_char n] else str_nat (n div 10) @ [digit_char (n mod 10)])"

definition str_int :: "int \<Rightarrow> string" where
  \<comment> \<open>\<open>str(n)\<close>, also what an f-string writes for an \<open>int\<close>.\<close>
  "str_int n = (if n < 0 then CHR ''-'' # str_nat (nat (- n)) else str_nat (nat n))"

definition slice_to :: "int \<Rightarrow> 'a list \<Rightarrow> 'a list" where
  \<comment> \<open>\<open>xs[:n]\<close>: a negative bound counts from the end.\<close>
  "slice_to n xs = (if 0 \<le> n then take (nat n) xs else take (nat (int (length xs) + n)) xs)"

section \<open>Records of \<open>models.py\<close>\<close>

text \<open>
  \<open>Paper\<close>. The field \<open>id\<close> is called \<open>paper_id\<close> here. A field name is a constant, so a
  local variable of the source that has the name of a field carries a prime. The parser
  can leave \<open>None\<close> in \<open>arxiv_url\<close> (an \<open>id\<close> element without text), so that field is an
  option; every other field is always a string or a list of strings.
\<close>

record Paper =
  paper_id :: string
  title :: string
  authors :: "string list"
  abstract :: string
  published :: string
  categories :: "string list"
  arxiv_url :: "string option"
  pdf_url :: string

record SearchResult =
  query :: string
  total_results :: nat
  papers :: "Paper list"
  error :: "string option"

record ExportConfig =
  format :: string
  include_abstract :: bool
  include_categories :: bool
  include_urls :: bool

section \<open>The HTTP client and the XML parser\<close>

text \<open>
  \<open>httpx\<close> and \<open>xml.etree.ElementTree\<close> are libraries outside the repository. The program
  reads nothing of an exception but \<open>str(e)\<close>, so a raised exception is the string
  \<open>str(e)\<close>, on the left of a sum. The client and the XML parser are parameters of every
  operation that reaches them: any function of these types is a possible world.
\<close>

record Response =
  status_code :: nat
  reason_phrase :: string
  message_tail :: string
  content :: string

datatype Element =
  Element (tag: string) (attrib: "(string \<times> string) list") (elem_text: "string option")
    (children: "Element list")

record Env =
  http_get :: "string \<Rightarrow> string + Response"
  fromstring :: "string \<Rightarrow> string + Element"

definition error_type :: "nat \<Rightarrow> string" where
  "error_type code =
     (if code div 100 = 1 then ''Informational response''
      else if code div 100 = 3 then ''Redirect response''
      else if code div 100 = 4 then ''Client error''
      else if code div 100 = 5 then ''Server error''
      else ''Invalid status code'')"

definition status_error_text :: "Response \<Rightarrow> string" where
  \<comment> \<open>\<open>str(e)\<close> of the \<open>httpx.HTTPStatusError\<close> that \<open>raise_for_status\<close> raises: the kind of
      error with the status line in quotes, then what the library appends to it (the URL
      of the request, a redirect location if there is one, a link to a description of the
      status), which the response carries as \<open>message_tail\<close>.\<close>
  "status_error_text r =
     error_type (status_code r) @ '' '' @ [CHR 0x27] @ str_nat (status_code r) @ '' ''
     @ reason_phrase r @ [CHR 0x27] @ message_tail r"

definition raise_for_status :: "Response \<Rightarrow> string + unit" where
  "raise_for_status r =
     (if 200 \<le> status_code r \<and> status_code r \<le> 299 then Inr ()
      else Inl (status_error_text r))"

definition atom :: "string \<Rightarrow> string" where
  \<comment> \<open>\<open>atom:name\<close> under the namespace map \<open>ns\<close> of \<open>_parse_paper_entry\<close>.\<close>
  "atom name = ''{http://www.w3.org/2005/Atom}'' @ name"

definition find_child :: "string \<Rightarrow> Element \<Rightarrow> Element option" where
  \<comment> \<open>\<open>entry.find(path, ns)\<close> for a path of one step: the first child with that tag.\<close>
  "find_child t e = List.find (\<lambda>c. tag c = t) (children e)"

definition findall_children :: "string \<Rightarrow> Element \<Rightarrow> Element list" where
  "findall_children t e = filter (\<lambda>c. tag c = t) (children e)"

fun descendants :: "Element \<Rightarrow> Element list" where
  "descendants (Element t a x cs) = concat (map (\<lambda>c. c # descendants c) cs)"

definition findall_descendants :: "string \<Rightarrow> Element \<Rightarrow> Element list" where
  \<comment> \<open>\<open>root.findall('.//tag')\<close>: every element below the root with that tag, in document
      order.\<close>
  "findall_descendants t root = filter (\<lambda>c. tag c = t) (descendants root)"

definition get_attr :: "Element \<Rightarrow> string \<Rightarrow> string option" where
  "get_attr e k = map_of (attrib e) k"

section \<open>\<open>ArxivAPI\<close>: the response parser\<close>

definition NL :: char where
  "NL = CHR 0x0A"

definition text_stripped :: "Element \<Rightarrow> string option" where
  \<comment> \<open>\<open>elem.text.strip()\<close>; \<open>None\<close> here is the \<open>AttributeError\<close> raised when the element
      has no text.\<close>
  "text_stripped e = map_option strip (elem_text e)"

definition entry_title :: "Element \<Rightarrow> string option" where
  "entry_title entry =
     (case find_child (atom ''title'') entry of
        None \<Rightarrow> Some ''Unknown Title''
      | Some title_elem \<Rightarrow> map_option (\<lambda>t. replace t [NL] '' '') (text_stripped title_elem))"

fun entry_authors :: "Element list \<Rightarrow> string list \<Rightarrow> string list option" where
  "entry_authors [] authors' = Some authors'"
| "entry_authors (author # rest) authors' =
     (case find_child (atom ''name'') author of
        None \<Rightarrow> entry_authors rest authors'
      | Some name_elem \<Rightarrow>
          (case text_stripped name_elem of
             None \<Rightarrow> None
           | Some name \<Rightarrow> entry_authors rest (authors' @ [name])))"

definition entry_abstract :: "Element \<Rightarrow> string option" where
  "entry_abstract entry =
     (case find_child (atom ''summary'') entry of
        None \<Rightarrow> Some []
      | Some summary_elem \<Rightarrow> map_option (\<lambda>t. replace t [NL] '' '') (text_stripped summary_elem))"

definition entry_arxiv_url :: "Element \<Rightarrow> string option" where
  \<comment> \<open>No exception here: \<open>None\<close> is the Python value \<open>None\<close> of an \<open>id\<close> element without
      text.\<close>
  "entry_arxiv_url entry =
     (case find_child (atom ''id'') entry of None \<Rightarrow> Some [] | Some id_elem \<Rightarrow> elem_text id_elem)"

definition entry_arxiv_id :: "string option \<Rightarrow> string" where
  "entry_arxiv_id arxiv_url' =
     (case arxiv_url' of
        None \<Rightarrow> []
      | Some u \<Rightarrow> if u \<noteq> [] then last (split_char (CHR ''/'') u) else [])"

definition entry_published :: "Element \<Rightarrow> string option" where
  \<comment> \<open>\<open>None\<close> is the \<open>TypeError\<close> of slicing \<open>None\<close>.\<close>
  "entry_published entry =
     (case find_child (atom ''published'') entry of
        None \<Rightarrow> Some []
      | Some published_elem \<Rightarrow> map_option (take 10) (elem_text published_elem))"

definition entry_categories :: "Element \<Rightarrow> string list" where
  "entry_categories entry =
     concat (map (\<lambda>category. case get_attr category ''term'' of
                                None \<Rightarrow> []
                              | Some term \<Rightarrow> if term \<noteq> [] then [term] else [])
                 (findall_children (atom ''category'') entry))"

definition entry_pdf_url :: "Element \<Rightarrow> string" where
  "entry_pdf_url entry =
     (case List.find (\<lambda>link. get_attr link ''type'' = Some ''application/pdf'')
             (findall_children (atom ''link'') entry) of
        None \<Rightarrow> []
      | Some link \<Rightarrow> (case get_attr link ''href'' of None \<Rightarrow> [] | Some href \<Rightarrow> href))"

definition parse_paper_entry :: "Element \<Rightarrow> Paper option" where
  \<comment> \<open>\<open>_parse_paper_entry\<close> followed by \<open>Paper.from_dict\<close>: the dictionary always has the
      eight keys, so the record is built at once. \<open>None\<close> is the value returned by the
      \<open>except\<close> branch.\<close>
  "parse_paper_entry entry =
     do {
       title' \<leftarrow> entry_title entry;
       authors' \<leftarrow> entry_authors (findall_children (atom ''author'') entry) [];
       abstract' \<leftarrow> entry_abstract entry;
       let arxiv_url' = entry_arxiv_url entry;
       let arxiv_id = entry_arxiv_id arxiv_url';
       published' \<leftarrow> entry_published entry;
       let categories' = entry_categories entry;
       let pdf_url' = entry_pdf_url entry;
       Some \<lparr>paper_id = arxiv_id, title = title', authors = authors', abstract = abstract',
             published = published', categories = categories', arxiv_url = arxiv_url',
             pdf_url = pdf_url'\<rparr>
     }"

fun parse_entries :: "Element list \<Rightarrow> Paper list \<Rightarrow> Paper list" where
  \<comment> \<open>The \<open>for\<close> loop of \<open>_parse_response\<close>, with the list \<open>papers\<close> it appends to.\<close>
  "parse_entries [] papers' = papers'"
| "parse_entries (entry # rest) papers' =
     (case parse_paper_entry entry of
        None \<Rightarrow> parse_entries rest papers'
      | Some paper \<Rightarrow> parse_entries rest (papers' @ [paper]))"

definition parse_response :: "Env \<Rightarrow> string \<Rightarrow> Paper list" where
  "parse_response env bytes =
     (case fromstring env bytes of
        Inl e \<Rightarrow> []
      | Inr root \<Rightarrow> parse_entries (findall_descendants (atom ''entry'') root) [])"

section \<open>\<open>ArxivAPI\<close>: \<open>search\<close> and \<open>get_paper\<close>\<close>

definition base_url :: string where
  "base_url = ''https://export.arxiv.org/api/query''"

definition hex_digit :: "nat \<Rightarrow> char" where
  "hex_digit d = ''0123456789ABCDEF'' ! (d mod 16)"

definition utf8 :: "char \<Rightarrow> nat list" where
  "utf8 c = (let n = (of_char c :: nat) in if n < 128 then [n] else [192 + n div 64, 128 + n mod 64])"

definition always_safe :: "char \<Rightarrow> bool" where
  "always_safe c =
     (let n = (of_char c :: nat)
      in (65 \<le> n \<and> n \<le> 90) \<or> (97 \<le> n \<and> n \<le> 122) \<or> (48 \<le> n \<and> n \<le> 57)
         \<or> c \<in> set ''_.-~'')"

definition quote_plus :: "string \<Rightarrow> string" where
  \<comment> \<open>\<open>urllib.parse.quote_plus\<close>: a space becomes \<open>+\<close>, a letter, a digit and \<open>_.-~\<close> stay,
      every other character becomes \<open>%XX\<close> for each byte of its UTF-8 encoding.\<close>
  "quote_plus s =
     concat (map (\<lambda>c. if c = CHR '' '' then ''+''
                       else if always_safe c then [c]
                       else concat (map (\<lambda>b. [CHR ''%'', hex_digit (b div 16), hex_digit b]) (utf8 c)))
                 s)"

definition search_url :: "string \<Rightarrow> int \<Rightarrow> string \<Rightarrow> string" where
  "search_url q max_results sort_by =
     (let encoded_query = quote_plus q;
          sort_order = (if sort_by \<noteq> ''relevance'' then ''descending'' else ''ascending'')
      in base_url @ ''?search_query='' @ encoded_query @ ''&start=0&max_results=''
         @ str_int max_results @ ''&sortBy='' @ sort_by @ ''&sortOrder='' @ sort_order)"

definition search_failed :: "string \<Rightarrow> string \<Rightarrow> SearchResult" where
  \<comment> \<open>The \<open>except\<close> branch of \<open>search\<close>; \<open>e\<close> is \<open>str(e)\<close>.\<close>
  "search_failed q e = \<lparr>query = q, total_results = 0, papers = [], error = Some e\<rparr>"

definition search :: "Env \<Rightarrow> string \<Rightarrow> int \<Rightarrow> string \<Rightarrow> SearchResult" where
  "search env q max_results sort_by =
     (case http_get env (search_url q max_results sort_by) of
        Inl e \<Rightarrow> search_failed q e
      | Inr response \<Rightarrow>
          (case raise_for_status response of
             Inl e \<Rightarrow> search_failed q e
           | Inr _ \<Rightarrow>
               (let papers' = parse_response env (content response)
                in \<lparr>query = q, total_results = length papers', papers = papers',
                     error = None\<rparr>)))"

definition clean_id :: "string \<Rightarrow> string" where
  "clean_id arxiv_id =
     replace (replace (replace (replace arxiv_id ''arXiv:'' []) ''v1'' []) ''v2'' []) ''v3'' []"

definition get_paper :: "Env \<Rightarrow> string \<Rightarrow> Paper option" where
  "get_paper env arxiv_id =
     (let url = base_url @ ''?id_list='' @ clean_id arxiv_id
      in case http_get env url of
           Inl e \<Rightarrow> None
         | Inr response \<Rightarrow>
             (case raise_for_status response of
                Inl e \<Rightarrow> None
              | Inr _ \<Rightarrow>
                  (case parse_response env (content response) of
                     [] \<Rightarrow> None
                   | paper # _ \<Rightarrow> Some paper)))"

section \<open>\<open>RelatedPaperFinder\<close>\<close>

definition stop_words :: "string list" where
  "stop_words = [''the'', ''a'', ''an'', ''and'', ''or'', ''but'', ''in'', ''on'', ''at'',
                 ''to'', ''for'', ''of'', ''with'', ''by'', ''via'', ''using'']"

definition key_words :: "Paper \<Rightarrow> string list" where
  "key_words paper =
     take 3 (filter (\<lambda>word. length word > 3 \<and> word \<notin> set stop_words) (split (lower (title paper))))"

definition search_terms :: "Paper \<Rightarrow> string list" where
  "search_terms paper =
     map (\<lambda>cat. ''cat:'' @ cat) (take 2 (categories paper))
     @ map (\<lambda>word. [CHR 0x22] @ word @ [CHR 0x22]) (key_words paper)"

datatype query_branch = Joined | FirstCategory | DefaultCategory

definition related_branch :: "Paper \<Rightarrow> query_branch" where
  \<comment> \<open>Which arm of the conditional expression of lines 227 to 229 is evaluated.\<close>
  "related_branch paper =
     (if search_terms paper \<noteq> [] then Joined
      else if categories paper \<noteq> [] then FirstCategory else DefaultCategory)"

definition related_query :: "Paper \<Rightarrow> string" where
  "related_query paper =
     (case related_branch paper of
        Joined \<Rightarrow> join '' OR '' (search_terms paper)
      | FirstCategory \<Rightarrow> hd (categories paper)
      | DefaultCategory \<Rightarrow> ''cs.AI'')"

definition find_related_papers :: "Env \<Rightarrow> Paper \<Rightarrow> int \<Rightarrow> Paper list" where
  \<comment> \<open>Nothing in the \<open>try\<close> block raises on a \<open>Paper\<close> and an \<open>int\<close> (\<open>search\<close> has its own
      handler), so the \<open>except\<close> branch has no case here.\<close>
  "find_related_papers env paper max_results =
     (let results = search env (related_query paper) (max_results + 5) ''relevance''
      in slice_to max_results (filter (\<lambda>p. paper_id p \<noteq> paper_id paper) (papers results)))"

section \<open>\<open>TrendAnalyzer\<close>: publication counts\<close>

text \<open>
  A Python dictionary is an association list in insertion order with distinct keys:
  \<^const>\<open>AList.update\<close> overwrites the value of a key in place and puts a new key last,
  \<^const>\<open>map_of\<close> looks a key up. Strings are compared as Python compares them, by code
  point from the left, and pairs as tuples.
\<close>

definition dict_get :: "('k \<times> 'v) list \<Rightarrow> 'k \<Rightarrow> 'v \<Rightarrow> 'v" where
  \<comment> \<open>\<open>d.get(k, default)\<close>.\<close>
  "dict_get d k dflt = (case map_of d k of None \<Rightarrow> dflt | Some v \<Rightarrow> v)"

definition dict_of_items :: "('k \<times> 'v) list \<Rightarrow> ('k \<times> 'v) list" where
  \<comment> \<open>\<open>dict(items)\<close>.\<close>
  "dict_of_items kvs = foldl (\<lambda>d (k, v). AList.update k v d) [] kvs"

fun count_months :: "Paper list \<Rightarrow> (string \<times> nat) list \<Rightarrow> (string \<times> nat) list" where
  \<comment> \<open>The loop of \<open>_analyze_publication_count\<close> over the dictionary \<open>monthly_counts\<close>.\<close>
  "count_months [] monthly_counts = monthly_counts"
| "count_months (paper # rest) monthly_counts =
     (if published paper \<noteq> []
      then (let month_key = take 7 (published paper)
            in count_months rest
                 (AList.update month_key (dict_get monthly_counts month_key 0 + 1) monthly_counts))
      else count_months rest monthly_counts)"

definition monthly_counts_sorted :: "Paper list \<Rightarrow> (string \<times> nat) list" where
  "monthly_counts_sorted papers' = dict_of_items (sort (count_months papers' []))"

definition analyze_publication_count :: "Paper list \<Rightarrow> (string \<times> (string \<times> nat) list) list" where
  "analyze_publication_count papers' = [(''monthly_counts'', monthly_counts_sorted papers')]"

section \<open>\<open>CitationAnalyzer\<close>\<close>

text \<open>
  Floating point is kept abstract: the estimator is given the three float operations it
  uses, and \<open>citations_per_year\<close> has their result type. The fields \<open>arxiv_id\<close>, \<open>title\<close>
  and \<open>note\<close> of \<open>CitationInfo\<close> are \<open>info_arxiv_id\<close>, \<open>info_title\<close> and \<open>info_note\<close>. The
  integer \<open>int(base_citations * 1.5)\<close> is written with integer arithmetic; the product is
  exact in double precision for every value below \<open>2^52\<close>, far above what four-character
  years and the two draws can give.
\<close>

record 'f CitationInfo =
  info_arxiv_id :: string
  info_title :: string
  estimated_citations :: int
  citations_per_year :: 'f
  h_index_contribution :: int
  info_note :: string

record 'f Floats =
  truediv :: "int \<Rightarrow> int \<Rightarrow> 'f"
  round1 :: "'f \<Rightarrow> 'f"
  zero_float :: 'f

definition is_digit :: "char \<Rightarrow> bool" where
  "is_digit c = (48 \<le> (of_char c :: nat) \<and> (of_char c :: nat) \<le> 57)"

fun digits_value :: "nat \<Rightarrow> bool \<Rightarrow> string \<Rightarrow> nat option" where
  \<comment> \<open>Decimal digits, single underscores allowed between two digits; the flag says that
      the character before was a digit.\<close>
  "digits_value n after_digit [] = (if after_digit then Some n else None)"
| "digits_value n after_digit (c # cs) =
     (if is_digit c then digits_value (10 * n + (of_char c - 48)) True cs
      else if c = CHR ''_'' \<and> after_digit then digits_value n False cs
      else None)"

definition int_space :: "char \<Rightarrow> bool" where
  \<comment> \<open>The white space that \<open>int\<close> skips around a number: the ASCII white space and, above
      ASCII, the characters of \<open>str.isspace\<close>. The separators U+001C to U+001F are not
      among them.\<close>
  "int_space c = ((of_char c :: nat) \<in> set [9, 10, 11, 12, 13, 32, 133, 160])"

definition hex2 :: "nat \<Rightarrow> string" where
  "hex2 n = [''0123456789abcdef'' ! (n div 16 mod 16), ''0123456789abcdef'' ! (n mod 16)]"

definition repr_char :: "char \<Rightarrow> char \<Rightarrow> string" where
  \<comment> \<open>One character inside \<open>repr(s)\<close> when the string is quoted with \<open>quote\<close>.\<close>
  "repr_char quote c =
     (let n = (of_char c :: nat)
      in if c = quote \<or> c = CHR 0x5C then [CHR 0x5C, c]
         else if n = 9 then [CHR 0x5C, CHR ''t'']
         else if n = 10 then [CHR 0x5C, CHR ''n'']
         else if n = 13 then [CHR 0x5C, CHR ''r'']
         else if n < 32 \<or> (127 \<le> n \<and> n \<le> 160) \<or> n = 173 then [CHR 0x5C, CHR ''x''] @ hex2 n
         else [c])"

definition repr :: "string \<Rightarrow> string" where
  \<comment> \<open>\<open>repr(s)\<close>: single quotes, or double quotes when the string has a single quote and no
      double quote.\<close>
  "repr s =
     (let quote = (if CHR 0x27 \<in> set s \<and> CHR 0x22 \<notin> set s then CHR 0x22 else CHR 0x27)
      in [quote] @ concat (map (repr_char quote) s) @ [quote])"

definition py_int :: "string \<Rightarrow> string + int" where
  \<comment> \<open>\<open>int(s)\<close>: white space around, an optional sign, decimal digits. \<open>Inl\<close> is the text
      of the \<open>ValueError\<close>, which shows at most 200 characters of \<open>repr(s)\<close>.\<close>
  "py_int s =
     (let t = rev (dropWhile int_space (rev (dropWhile int_space s)));
          invalid = Inl (''invalid literal for int() with base 10: '' @ take 200 (repr s))
      in case t of
           [] \<Rightarrow> invalid
         | c # cs \<Rightarrow>
             if c = CHR ''-'' then (case digits_value 0 False cs of
                                      None \<Rightarrow> invalid | Some n \<Rightarrow> Inr (- int n))
             else if c = CHR ''+'' then (case digits_value 0 False cs of
                                           None \<Rightarrow> invalid | Some n \<Rightarrow> Inr (int n))
             else (case digits_value 0 False t of None \<Rightarrow> invalid | Some n \<Rightarrow> Inr (int n)))"

definition popular_categories :: "string list" where
  "popular_categories = [''cs.AI'', ''cs.LG'', ''cs.CV'', ''cs.CL'']"

definition is_popular :: "Paper \<Rightarrow> bool" where
  "is_popular paper = (\<exists>cat \<in> set (categories paper). cat \<in> set popular_categories)"

definition estimate_citations ::
  "'f Floats \<Rightarrow> int \<Rightarrow> int \<Rightarrow> int \<Rightarrow> Paper \<Rightarrow> 'f CitationInfo" where
  \<comment> \<open>\<open>current_year\<close> is \<open>datetime.now().year\<close>; \<open>draw1\<close> and \<open>draw2\<close> are the values of
      \<open>random.randint(5, 25)\<close> and \<open>random.randint(0, 20)\<close>.\<close>
  "estimate_citations fl current_year draw1 draw2 paper =
     (if published paper = []
      then \<lparr>info_arxiv_id = paper_id paper, info_title = title paper, estimated_citations = 0,
            citations_per_year = zero_float fl, h_index_contribution = 0,
            info_note = ''Could not determine publication date''\<rparr>
      else case py_int (take 4 (published paper)) of
        Inl e \<Rightarrow>
          \<lparr>info_arxiv_id = paper_id paper, info_title = title paper, estimated_citations = 0,
           citations_per_year = zero_float fl, h_index_contribution = 0,
           info_note = ''Error estimating citations: '' @ e\<rparr>
      | Inr pub_year \<Rightarrow>
          (let age_years = max 1 (current_year - pub_year);
               base_citations = max 0 (age_years * draw1 - draw2);
               base_citations = (if is_popular paper then (base_citations * 3) div 2
                                 else base_citations)
           in \<lparr>info_arxiv_id = paper_id paper, info_title = title paper,
                estimated_citations = base_citations,
                citations_per_year = round1 fl (truediv fl base_citations age_years),
                h_index_contribution = min base_citations 10,
                info_note = ''Citation data is estimated/simulated as arXiv doesn'' @ [CHR 0x27]
                       @ ''t track citations directly''\<rparr>))"

section \<open>\<open>PaperExporter\<close>\<close>

definition backslash :: char where
  "backslash = CHR 0x5C"

definition escape_braces :: "string \<Rightarrow> string" where
  \<comment> \<open>\<open>s.replace('{', '\\{').replace('}', '\\}')\<close>.\<close>
  "escape_braces s = replace (replace s ''{'' [backslash, CHR ''{'']) ''}'' [backslash, CHR ''}'']"

definition bibtex_key :: "Paper \<Rightarrow> string" where
  "bibtex_key paper = replace (replace (paper_id paper) ''.'' ''_'') ''/'' ''_''"

definition bibtex_entry :: "ExportConfig \<Rightarrow> Paper \<Rightarrow> string" where
  \<comment> \<open>The body of the loop of \<open>_export_bibtex\<close>: the entry of one paper.\<close>
  "bibtex_entry config paper =
     (let arxiv_id = bibtex_key paper;
          title' = escape_braces (title paper);
          authors' = join '' and '' (authors paper);
          year = (if published paper \<noteq> [] then take 4 (published paper) else []);
          entry = ''@article{'' @ arxiv_id @ '','' @ [NL]
                  @ ''  title={'' @ title' @ ''},'' @ [NL]
                  @ ''  author={'' @ authors' @ ''},'' @ [NL]
                  @ ''  journal={arXiv preprint arXiv:'' @ paper_id paper @ ''},'' @ [NL]
                  @ ''  year={'' @ year @ ''}'';
          entry = (if include_urls config
                   then entry @ '','' @ [NL] @ ''  url={https://export.arxiv.org/abs/''
                        @ paper_id paper @ ''}''
                   else entry);
          entry = (if include_abstract config \<and> include_abstract config
                   then entry @ '','' @ [NL] @ ''  abstract={'' @ escape_braces (abstract paper) @ ''}''
                   else entry);
          entry = (if include_categories config \<and> categories paper \<noteq> []
                   then entry @ '','' @ [NL] @ ''  note={Categories: ''
                        @ join '', '' (categories paper) @ ''}''
                   else entry)
      in entry @ [NL] @ ''}'')"

definition export_bibtex :: "Paper list \<Rightarrow> ExportConfig \<Rightarrow> string" where
  "export_bibtex papers' config = join [NL, NL] (map (bibtex_entry config) papers')"

datatype json = JNull | JString string | JArray "json list" | JObject "(string \<times> json) list"

definition to_dict :: "Paper \<Rightarrow> (string \<times> json) list" where
  \<comment> \<open>\<open>Paper.to_dict\<close>, with the values as \<open>json.dumps\<close> sees them.\<close>
  "to_dict paper =
     [(''id'', JString (paper_id paper)),
      (''title'', JString (title paper)),
      (''authors'', JArray (map JString (authors paper))),
      (''abstract'', JString (abstract paper)),
      (''published'', JString (published paper)),
      (''categories'', JArray (map JString (categories paper))),
      (''arxiv_url'', (case arxiv_url paper of None \<Rightarrow> JNull | Some u \<Rightarrow> JString u)),
      (''pdf_url'', JString (pdf_url paper))]"

definition json_paper_dict :: "ExportConfig \<Rightarrow> Paper \<Rightarrow> (string \<times> json) list" where
  \<comment> \<open>The body of the loop of \<open>_export_json\<close>; \<open>pop(key, None)\<close> is \<^const>\<open>AList.delete\<close>.\<close>
  "json_paper_dict config paper =
     (let paper_dict = to_dict paper;
          paper_dict = (if \<not> include_abstract config then AList.delete ''abstract'' paper_dict
                        else paper_dict);
          paper_dict = (if \<not> include_categories config then AList.delete ''categories'' paper_dict
                        else paper_dict);
          paper_dict = (if \<not> include_urls config
                        then AList.delete ''pdf_url'' (AList.delete ''arxiv_url'' paper_dict)
                        else paper_dict)
      in paper_dict)"

definition hex_lower :: "nat \<Rightarrow> char" where
  "hex_lower d = ''0123456789abcdef'' ! (d mod 16)"

definition json_escape :: "char \<Rightarrow> string" where
  \<comment> \<open>One character under \<open>ensure_ascii\<close>: the short escapes, \<open>\\u00xx\<close> for every other
      character outside the range from space to tilde.\<close>
  "json_escape c =
     (let n = (of_char c :: nat)
      in if c = CHR 0x22 then [backslash, CHR 0x22]
         else if c = backslash then [backslash, backslash]
         else if n = 8 then [backslash, CHR ''b'']
         else if n = 12 then [backslash, CHR ''f'']
         else if n = 10 then [backslash, CHR ''n'']
         else if n = 13 then [backslash, CHR ''r'']
         else if n = 9 then [backslash, CHR ''t'']
         else if n < 32 \<or> 126 < n
              then [backslash, CHR ''u'', CHR ''0'', CHR ''0'', hex_lower (n div 16), hex_lower n]
         else [c])"

definition json_string :: "string \<Rightarrow> string" where
  "json_string s = [CHR 0x22] @ concat (map json_escape s) @ [CHR 0x22]"

definition newline_indent :: "nat \<Rightarrow> string" where
  "newline_indent level = NL # replicate (2 * level) (CHR '' '')"

fun dumps :: "nat \<Rightarrow> json \<Rightarrow> string" where
  \<comment> \<open>\<open>json.dumps(obj, indent=2)\<close> at nesting depth \<open>level\<close>.\<close>
  "dumps level JNull = ''null''"
| "dumps level (JString s) = json_string s"
| "dumps level (JArray xs) =
     (if xs = [] then ''[]''
      else ''['' @ newline_indent (level + 1)
           @ join ('','' @ newline_indent (level + 1)) (map (dumps (level + 1)) xs)
           @ newline_indent level @ '']'')"
| "dumps level (JObject kvs) =
     (if kvs = [] then ''{}''
      else ''{'' @ newline_indent (level + 1)
           @ join ('','' @ newline_indent (level + 1))
               (map (\<lambda>kv. json_string (fst kv) @ '': '' @ dumps (level + 1) (snd kv)) kvs)
           @ newline_indent level @ ''}'')"

definition export_json :: "Paper list \<Rightarrow> ExportConfig \<Rightarrow> string" where
  "export_json papers' config = dumps 0 (JArray (map (\<lambda>p. JObject (json_paper_dict config p)) papers'))"

definition csv_field :: "string \<Rightarrow> string" where
  \<comment> \<open>One field under the default dialect: quoted when it holds a comma, a quote or a
      line break, a quote inside written twice.\<close>
  "csv_field f =
     (if \<exists>c \<in> set f. c \<in> set [CHR '','', CHR 0x22, CHR 0x0D, CHR 0x0A]
      then [CHR 0x22] @ concat (map (\<lambda>c. if c = CHR 0x22 then [c, c] else [c]) f) @ [CHR 0x22]
      else f)"

definition csv_row :: "string list \<Rightarrow> string" where
  "csv_row values = join '','' (map csv_field values) @ [CHR 0x0D, CHR 0x0A]"

definition csv_fieldnames :: "ExportConfig \<Rightarrow> string list" where
  "csv_fieldnames config =
     [''id'', ''title'', ''authors'', ''published'']
     @ (if include_categories config then [''categories''] else [])
     @ (if include_urls config then [''arxiv_url'', ''pdf_url''] else [])
     @ (if include_abstract config then [''abstract''] else [])"

definition csv_paper_row :: "ExportConfig \<Rightarrow> Paper \<Rightarrow> string list" where
  \<comment> \<open>The values of the dictionary \<open>row\<close> in the order of the field names; the writer
      writes \<open>None\<close> as the empty string.\<close>
  "csv_paper_row config paper =
     [paper_id paper, title paper, join ''; '' (authors paper), published paper]
     @ (if include_categories config then [join ''; '' (categories paper)] else [])
     @ (if include_urls config
        then [(case arxiv_url paper of None \<Rightarrow> [] | Some u \<Rightarrow> u), pdf_url paper] else [])
     @ (if include_abstract config then [abstract paper] else [])"

definition export_csv :: "Paper list \<Rightarrow> ExportConfig \<Rightarrow> string" where
  "export_csv papers' config =
     csv_row (csv_fieldnames config) @ concat (map (\<lambda>p. csv_row (csv_paper_row config p)) papers')"

definition markdown_paper :: "ExportConfig \<Rightarrow> nat \<Rightarrow> Paper \<Rightarrow> string" where
  "markdown_paper config i paper =
     ''## '' @ str_nat i @ ''. '' @ title paper @ [NL, NL]
     @ ''**Authors:** '' @ join '', '' (authors paper) @ ''  '' @ [NL]
     @ ''**arXiv ID:** ['' @ paper_id paper @ ''](https://exportarxiv.org/abs/'' @ paper_id paper
     @ '')  '' @ [NL]
     @ ''**Published:** '' @ published paper @ ''  '' @ [NL]
     @ (if include_categories config \<and> categories paper \<noteq> []
        then ''**Categories:** '' @ join '', '' (categories paper) @ ''  '' @ [NL] else [])
     @ (if include_urls config
        then ''**PDF:** [Download](https://export.arxiv.org/pdf/'' @ paper_id paper @ ''.pdf)  '' @ [NL]
        else [])
     @ [NL]
     @ (if include_abstract config then ''**Abstract:**  '' @ [NL] @ abstract paper @ [NL, NL] else [])
     @ ''---'' @ [NL, NL]"

definition export_markdown :: "Paper list \<Rightarrow> ExportConfig \<Rightarrow> string" where
  "export_markdown papers' config =
     ''# arXiv Papers Export'' @ [NL, NL]
     @ concat (map (\<lambda>(i, paper). markdown_paper config i paper)
                   (zip [1 ..< Suc (length papers')] papers'))"

definition export_papers :: "Paper list \<Rightarrow> ExportConfig \<Rightarrow> string + string" where
  \<comment> \<open>\<open>Inl\<close> is the text of the \<open>ValueError\<close> raised; \<open>Inr\<close> is the string returned.\<close>
  "export_papers papers' config =
     (if format config = ''bibtex'' then Inr (export_bibtex papers' config)
      else if format config = ''json'' then Inr (export_json papers' config)
      else if format config = ''csv'' then Inr (export_csv papers' config)
      else if format config = ''markdown'' then Inr (export_markdown papers' config)
      else Inl (''Unsupported format: '' @ format config))"

section \<open>Reading JSON back\<close>

text \<open>
  \<open>json.loads\<close> as a recursive-descent parser with the grammar and the white space of the
  library. The first argument of the three parsing functions bounds the nesting and the
  number of items still to come; it goes down at every call.
\<close>

definition is_json_ws :: "char \<Rightarrow> bool" where
  "is_json_ws c = (c \<in> set [CHR '' '', CHR 0x09, CHR 0x0A, CHR 0x0D])"

definition skip_ws :: "string \<Rightarrow> string" where
  "skip_ws s = dropWhile is_json_ws s"

definition hex_value :: "char \<Rightarrow> nat option" where
  "hex_value c =
     (let n = (of_char c :: nat)
      in if 48 \<le> n \<and> n \<le> 57 then Some (n - 48)
         else if 97 \<le> n \<and> n \<le> 102 then Some (n - 87)
         else if 65 \<le> n \<and> n \<le> 70 then Some (n - 55)
         else None)"

definition unescape :: "char \<Rightarrow> char option" where
  \<comment> \<open>The character after a backslash, \<open>u\<close> apart.\<close>
  "unescape c =
     (if c = CHR 0x22 \<or> c = backslash \<or> c = CHR ''/'' then Some c
      else if c = CHR ''b'' then Some (CHR 0x08)
      else if c = CHR ''f'' then Some (CHR 0x0C)
      else if c = CHR ''n'' then Some (CHR 0x0A)
      else if c = CHR ''r'' then Some (CHR 0x0D)
      else if c = CHR ''t'' then Some (CHR 0x09)
      else None)"

datatype scan_state = Plain | Escape | Hex nat nat

fun scan :: "scan_state \<Rightarrow> string \<Rightarrow> string \<Rightarrow> (string \<times> string) option" where
  \<comment> \<open>The string scanner in strict mode, one character at a time, behind the opening
      quote: the text read so far is kept reversed; \<open>Hex k n\<close> has read \<open>k\<close> of the four
      digits of a \<open>\\u\<close> escape, of value \<open>n\<close>. A code point above 255 is outside the
      strings of this development and is refused.\<close>
  "scan st acc [] = None"
| "scan Plain acc (c # cs) =
     (if c = CHR 0x22 then Some (rev acc, cs)
      else if c = backslash then scan Escape acc cs
      else if (of_char c :: nat) < 32 then None
      else scan Plain (c # acc) cs)"
| "scan Escape acc (c # cs) =
     (if c = CHR ''u'' then scan (Hex 0 0) acc cs
      else case unescape c of None \<Rightarrow> None | Some ch \<Rightarrow> scan Plain (ch # acc) cs)"
| "scan (Hex k n) acc (c # cs) =
     (case hex_value c of
        None \<Rightarrow> None
      | Some d \<Rightarrow>
          if k = 3 then (if 16 * n + d < 256 then scan Plain (char_of (16 * n + d) # acc) cs
                         else None)
          else scan (Hex (Suc k) (16 * n + d)) acc cs)"

definition scanstring :: "string \<Rightarrow> (string \<times> string) option" where
  "scanstring s = scan Plain [] s"

fun parse_value :: "nat \<Rightarrow> string \<Rightarrow> (json \<times> string) option"
  and parse_items :: "nat \<Rightarrow> string \<Rightarrow> (json list \<times> string) option"
  and parse_pairs :: "nat \<Rightarrow> string \<Rightarrow> ((string \<times> json) list \<times> string) option" where
  "parse_value 0 s = None"
| "parse_value (Suc n) [] = None"
| "parse_value (Suc n) (c # cs) =
     (if c = CHR 0x22 then map_option (\<lambda>(str, r). (JString str, r)) (scanstring cs)
      else if c = CHR ''['' then
        (case skip_ws cs of
           [] \<Rightarrow> None
         | d # r \<Rightarrow> if d = CHR '']'' then Some (JArray [], r)
                    else map_option (\<lambda>(xs, r'). (JArray xs, r')) (parse_items n (d # r)))
      else if c = CHR ''{'' then
        (case skip_ws cs of
           [] \<Rightarrow> None
         | d # r \<Rightarrow> if d = CHR ''}'' then Some (JObject [], r)
                    else if d = CHR 0x22
                    then map_option (\<lambda>(kvs, r'). (JObject (dict_of_items kvs), r')) (parse_pairs n r)
                    else None)
      else if c = CHR ''n'' then (if take 3 cs = ''ull'' then Some (JNull, drop 3 cs) else None)
      else None)"
| "parse_items 0 s = None"
| "parse_items (Suc n) s =
     (case parse_value n s of
        None \<Rightarrow> None
      | Some (v, r) \<Rightarrow>
          (case skip_ws r of
             [] \<Rightarrow> None
           | d # r' \<Rightarrow> if d = CHR '']'' then Some ([v], r')
                       else if d = CHR '',''
                       then map_option (\<lambda>(vs, r''). (v # vs, r'')) (parse_items n (skip_ws r'))
                       else None))"
| "parse_pairs 0 s = None"
| "parse_pairs (Suc n) s =
     (case scanstring s of
        None \<Rightarrow> None
      | Some (key, r) \<Rightarrow>
          (case skip_ws r of
             [] \<Rightarrow> None
           | d # r1 \<Rightarrow>
               if d \<noteq> CHR '':'' then None
               else (case parse_value n (skip_ws r1) of
                       None \<Rightarrow> None
                     | Some (v, r2) \<Rightarrow>
                         (case skip_ws r2 of
                            [] \<Rightarrow> None
                          | e # r3 \<Rightarrow>
                              if e = CHR ''}'' then Some ([(key, v)], r3)
                              else if e = CHR '',''
                              then (case skip_ws r3 of
                                      [] \<Rightarrow> None
                                    | q # r4 \<Rightarrow>
                                        if q = CHR 0x22
                                        then map_option (\<lambda>(kvs, r5). ((key, v) # kvs, r5))
                                               (parse_pairs n r4)
                                        else None)
                              else None))))"

definition json_loads :: "string \<Rightarrow> json option" where
  \<comment> \<open>\<open>json.loads\<close> on documents of strings, arrays, objects and \<open>null\<close>; \<open>None\<close> is the
      \<open>JSONDecodeError\<close>. Numbers and the literals \<open>true\<close> and \<open>false\<close>, which the exporter
      never writes, are refused. A parse never goes deeper than the text is long.\<close>
  "json_loads s =
     (case parse_value (length s) (skip_ws s) of
        None \<Rightarrow> None
      | Some (v, r) \<Rightarrow> if skip_ws r = [] then Some v else None)"

section \<open>The wording of the specification\<close>

text \<open>
  Three operations as the specification words them, for comparison with the code, and the
  list of the export formats.
\<close>

fun occurs :: "string \<Rightarrow> string \<Rightarrow> bool" where
  \<comment> \<open>\<open>sub in s\<close>.\<close>
  "occurs sub [] = (sub = [])"
| "occurs sub (c # cs) = (startswith (c # cs) sub \<or> occurs sub cs)"

definition spec_clean_id :: "string \<Rightarrow> string" where
  \<comment> \<open>The normalisation as the specification words it: the prefix \<open>arXiv:\<close> is taken off,
      then every \<open>v1\<close>, \<open>v2\<close> and \<open>v3\<close> is deleted.\<close>
  "spec_clean_id arxiv_id =
     (let unprefixed = (if startswith arxiv_id ''arXiv:'' then drop 6 arxiv_id else arxiv_id)
      in replace (replace (replace unprefixed ''v1'' []) ''v2'' []) ''v3'' [])"

definition spec_escape :: "string \<Rightarrow> string" where
  \<comment> \<open>The escaping as the specification words it: every brace gets a backslash in front.\<close>
  "spec_escape s =
     concat (map (\<lambda>c. if c = CHR ''{'' then [backslash, CHR ''{'']
                       else if c = CHR ''}'' then [backslash, CHR ''}''] else [c]) s)"

definition spec_key :: "string \<Rightarrow> string" where
  \<comment> \<open>The entry key as the specification words it.\<close>
  "spec_key s = map (\<lambda>c. if c = CHR ''.'' \<or> c = CHR ''/'' then CHR ''_'' else c) s"

definition supported_formats :: "string list" where
  "supported_formats = [''bibtex'', ''json'', ''csv'', ''markdown'']"

section \<open>Measures\<close>

definition month_count :: "string \<Rightarrow> Paper list \<Rightarrow> nat" where
  \<comment> \<open>How many papers with a publication date fall under the key \<open>k\<close>.\<close>
  "month_count k ps = length (filter (\<lambda>p. published p \<noteq> [] \<and> take 7 (published p) = k) ps)"

definition brace_excess :: "string \<Rightarrow> int" where
  \<comment> \<open>Opening braces minus closing braces.\<close>
  "brace_excess s = int (count_list s (CHR ''{'')) - int (count_list s (CHR ''}''))"

fun wf_json :: "json \<Rightarrow> bool" where
  \<comment> \<open>The values a Python dictionary can hold: no key twice in an object.\<close>
  "wf_json JNull = True"
| "wf_json (JString s) = True"
| "wf_json (JArray xs) = (\<forall>x \<in> set xs. wf_json x)"
| "wf_json (JObject kvs) = (distinct (map fst kvs) \<and> (\<forall>kv \<in> set kvs. wf_json (snd kv)))"

fun depth_bound :: "json \<Rightarrow> nat" where
  "depth_bound JNull = 1"
| "depth_bound (JString s) = 1"
| "depth_bound (JArray xs) = Suc (sum_list (map (\<lambda>x. Suc (depth_bound x)) xs))"
| "depth_bound (JObject kvs) = Suc (sum_list (map (\<lambda>kv. Suc (depth_bound (snd kv))) kvs))"

definition key_text :: "string \<Rightarrow> string" where
  \<comment> \<open>An encoded string behind its opening quote.\<close>
  "key_text k = concat (map json_escape k) @ [CHR 0x22]"

fun items_text :: "nat \<Rightarrow> json list \<Rightarrow> string \<Rightarrow> string" where
  \<comment> \<open>What \<^const>\<open>dumps\<close> writes for the items of a non-empty array at depth \<open>level\<close>, up to
      the closing bracket, followed by \<open>rest\<close>.\<close>
  "items_text level [] rest = rest"
| "items_text level [x] rest = dumps (Suc level) x @ newline_indent level @ '']'' @ rest"
| "items_text level (x # y # ys) rest =
     dumps (Suc level) x @ '','' @ newline_indent (Suc level) @ items_text level (y # ys) rest"

fun pairs_text :: "nat \<Rightarrow> (string \<times> json) list \<Rightarrow> string \<Rightarrow> string" where
  \<comment> \<open>The same for the pairs of a non-empty object, behind the opening quote of the first
      key.\<close>
  "pairs_text level [] rest = rest"
| "pairs_text level [kv] rest =
     key_text (fst kv) @ '': '' @ dumps (Suc level) (snd kv) @ newline_indent level @ ''}'' @ rest"
| "pairs_text level (kv # kv' # kvs) rest =
     key_text (fst kv) @ '': '' @ dumps (Suc level) (snd kv) @ '','' @ newline_indent (Suc level)
     @ CHR 0x22 # pairs_text level (kv' # kvs) rest"

section \<open>Sample worlds\<close>

definition entry_full :: Element where
  "entry_full =
     Element (atom ''entry'') [] None
       [Element (atom ''id'') [] (Some ''http://arxiv.org/abs/2301.00001v1'') [],
        Element (atom ''title'') [] (Some (''  Deep Learning'' @ [NL] @ ''for Graphs '')) [],
        Element (atom ''summary'') [] (Some ''We study graphs.'') [],
        Element (atom ''published'') [] (Some ''2023-01-02T10:00:00Z'') [],
        Element (atom ''author'') [] None [Element (atom ''name'') [] (Some ''Ada Lovelace'') []],
        Element (atom ''category'') [(''term'', ''cs.LG'')] None [],
        Element (atom ''link'') [(''href'', ''http://arxiv.org/pdf/2301.00001v1''),
                                 (''type'', ''application/pdf'')] None []]"

definition entry_untitled :: Element where
  "entry_untitled =
     Element (atom ''entry'') [] None
       [Element (atom ''id'') [] (Some ''http://arxiv.org/abs/2301.00002v1'') [],
        Element (atom ''published'') [] (Some ''2023-01-03T10:00:00Z'') []]"

definition entry_broken :: Element where
  \<comment> \<open>\<open><title/>\<close>: the element is there and has no text.\<close>
  "entry_broken =
     Element (atom ''entry'') [] None
       [Element (atom ''id'') [] (Some ''http://arxiv.org/abs/2301.00003v1'') [],
        Element (atom ''title'') [] None []]"

definition sample_feed :: Element where
  "sample_feed = Element (atom ''feed'') [] None [entry_full, entry_broken, entry_untitled]"

definition ok_response :: Response where
  "ok_response =
     \<lparr>status_code = 200, reason_phrase = ''OK'', message_tail = [], content = ''<feed/>''\<rparr>"

definition feed_env :: Env where
  "feed_env = \<lparr>http_get = (\<lambda>url. Inr ok_response), fromstring = (\<lambda>bytes. Inr sample_feed)\<rparr>"

definition garbage_env :: Env where
  "garbage_env =
     \<lparr>http_get = (\<lambda>url. Inr ok_response),
      fromstring = (\<lambda>bytes. Inl ''syntax error: line 1, column 0'')\<rparr>"

definition not_found :: "string \<Rightarrow> Response" where
  \<comment> \<open>The answer 404 to a request for \<open>url\<close>.\<close>
  "not_found url =
     \<lparr>status_code = 404, reason_phrase = ''Not Found'',
      message_tail = '' for url '' @ [CHR 0x27] @ url @ [CHR 0x27] @ [NL]
        @ ''For more information check: ''
        @ ''https://developer.mozilla.org/en-US/docs/Web/HTTP/Status/404'',
      content = []\<rparr>"

definition not_found_env :: Env where
  "not_found_env =
     \<lparr>http_get = (\<lambda>url. Inr (not_found url)), fromstring = (\<lambda>bytes. Inr sample_feed)\<rparr>"

definition timeout_env :: Env where
  \<comment> \<open>The client raises an exception whose \<open>str\<close> is empty, as \<open>Exception()\<close> has and as a
      timeout wrapped without a message has.\<close>
  "timeout_env = \<lparr>http_get = (\<lambda>url. Inl []), fromstring = (\<lambda>bytes. Inr sample_feed)\<rparr>"

definition seed_paper :: Paper where
  "seed_paper =
     \<lparr>paper_id = ''2301.00002v1'', title = ''Graph Kernels'', authors = [''Ada Lovelace''],
      abstract = ''Kernels.'', published = ''2023-01-03'', categories = [''cs.LG''],
      arxiv_url = Some ''http://arxiv.org/abs/2301.00002v1'', pdf_url = []\<rparr>"

definition absent_paper :: Paper where
  \<comment> \<open>A seed that the sample feed does not list.\<close>
  "absent_paper = seed_paper\<lparr>paper_id := ''2301.00009v1''\<rparr>"

definition brace_paper :: Paper where
  "brace_paper = seed_paper\<lparr>title := ''Sets {x'', abstract := ''On {x}.''\<rparr>"

definition popular_2020 :: Paper where
  "popular_2020 = seed_paper\<lparr>published := ''2020-01-01''\<rparr>"

definition plain_2020 :: Paper where
  "plain_2020 = seed_paper\<lparr>published := ''2020-01-01'', categories := [''math.CO'']\<rparr>"

definition bibtex_config :: ExportConfig where
  "bibtex_config =
     \<lparr>format = ''bibtex'', include_abstract = True, include_categories = True,
      include_urls = True\<rparr>"

definition round_tenths :: "int \<times> int \<Rightarrow> int \<times> int" where
  "round_tenths x =
     (let t = (10 * fst x) div snd x; r = (10 * fst x) mod snd x
      in (if 2 * r < snd x then t else if snd x < 2 * r then t + 1
          else if even t then t else t + 1, 10))"

definition exact_floats :: "(int \<times> int) Floats" where
  \<comment> \<open>A world whose floats are exact fractions, a numerator over a positive denominator:
      \<open>round(x, 1)\<close> gives the nearest number of tenths, a tie going to the even one.\<close>
  "exact_floats = \<lparr>truediv = (\<lambda>a b. (a, b)), round1 = round_tenths, zero_float = (0, 1)\<rparr>"

section \<open>Theorems\<close>

subsection \<open>String functions\<close>

lemma replace_from_skip: "replace_from old new (length xs) (xs @ s) = replace_from old new 0 s"
  by (induction xs) auto

lemma replace_prefix: "old \<noteq> [] \<Longrightarrow> replace (old @ s) old new = new @ replace s old new"
  using replace_from_skip [of old new "tl old" s]
  by (cases old) (auto simp: replace_def startswith_def)

lemma occurs_Nil: "occurs [] s"
  by (cases s) (simp_all add: startswith_def)

lemma replace_absent: "\<not> occurs old s \<Longrightarrow> replace s old new = s"
proof -
  assume absent: "\<not> occurs old s"
  then have "old \<noteq> []"
    using occurs_Nil by blast
  moreover have "replace_from old new 0 s = s"
    using absent by (induction s) auto
  ultimately show ?thesis
    by (simp add: replace_def)
qed

lemma startswith_append_long:
  "length old \<le> length s \<Longrightarrow> startswith (s @ t) old = startswith s old"
  by (simp add: startswith_def)

lemma replace_first:
  "\<not> occurs old (a @ butlast old) \<Longrightarrow> old \<noteq> [] \<Longrightarrow>
     replace (a @ old @ b) old new = a @ new @ replace b old new"
proof (induction a)
  case Nil
  then show ?case by (simp add: replace_prefix)
next
  case (Cons c a)
  have len: "length old \<le> length ((c # a) @ butlast old)"
    using Cons.prems(2) by simp
  have "\<not> startswith ((c # a) @ butlast old) old"
    using Cons.prems(1) by simp
  moreover have "(c # a) @ old @ b = ((c # a) @ butlast old) @ (last old # b)"
    using Cons.prems(2) by simp
  ultimately have "\<not> startswith ((c # a) @ old @ b) old"
    using startswith_append_long [OF len] by metis
  moreover have "replace (a @ old @ b) old new = a @ new @ replace b old new"
    using Cons by simp
  ultimately show ?case
    using Cons.prems(2) by (simp add: replace_def)
qed

subsection \<open>\<open>search\<close>\<close>

lemma status_error_text_nonempty: "status_error_text r \<noteq> []"
  by (simp add: status_error_text_def error_type_def)

text \<open>
  C1, amended. \<open>search\<close> is a total function into \<open>SearchResult\<close>: it never raises. When the
  client raises an exception, the result has \<open>papers = []\<close>, \<open>total_results = 0\<close> and \<open>error\<close>
  present and equal to \<open>str(e)\<close>, which is as empty as the exception's own text is; on a
  status outside 200 to 299 the error is the whole text of the status error, which is
  not empty. On success there is no error. In every result, an error that is present comes
  with no papers.
\<close>

theorem search_never_raises:
  "(\<forall>e. http_get env (search_url q n sort_by) = Inl e \<longrightarrow>
       search env q n sort_by = \<lparr>query = q, total_results = 0, papers = [], error = Some e\<rparr>)
   \<and> (\<forall>r. http_get env (search_url q n sort_by) = Inr r
          \<and> \<not> (200 \<le> status_code r \<and> status_code r \<le> 299) \<longrightarrow>
       search env q n sort_by
         = \<lparr>query = q, total_results = 0, papers = [], error = Some (status_error_text r)\<rparr>
       \<and> status_error_text r \<noteq> [])
   \<and> (\<forall>r. http_get env (search_url q n sort_by) = Inr r
          \<and> 200 \<le> status_code r \<and> status_code r \<le> 299 \<longrightarrow>
       search env q n sort_by
         = \<lparr>query = q, total_results = length (parse_response env (content r)),
            papers = parse_response env (content r), error = None\<rparr>)
   \<and> (error (search env q n sort_by) \<noteq> None \<longrightarrow>
       papers (search env q n sort_by) = [] \<and> total_results (search env q n sort_by) = 0)"
  by (auto simp: search_def search_failed_def raise_for_status_def status_error_text_nonempty Let_def
           split: sum.splits)

theorem search_never_raises_witness:
  "search not_found_env ''cat:cs.AI'' 10 ''relevance''
     = \<lparr>query = ''cat:cs.AI'', total_results = 0, papers = [],
        error = Some (''Client error '' @ [CHR 0x27] @ ''404 Not Found'' @ [CHR 0x27]
          @ '' for url '' @ [CHR 0x27]
          @ ''https://export.arxiv.org/api/query?search_query=cat%3Acs.AI&start=0''
          @ ''&max_results=10&sortBy=relevance&sortOrder=ascending'' @ [CHR 0x27] @ [NL]
          @ ''For more information check: ''
          @ ''https://developer.mozilla.org/en-US/docs/Web/HTTP/Status/404'')\<rparr>
   \<and> total_results (search feed_env ''cat:cs.AI'' 10 ''relevance'') = 2
   \<and> error (search feed_env ''cat:cs.AI'' 10 ''relevance'') = None"
proof -
  let ?url = "search_url ''cat:cs.AI'' 10 ''relevance''"
  have get_nf: "http_get not_found_env ?url = Inr (not_found ?url)"
    by (simp add: not_found_env_def)
  have status_nf: "\<not> (200 \<le> status_code (not_found ?url) \<and> status_code (not_found ?url) \<le> 299)"
    by (simp add: not_found_def)
  have text_nf: "status_error_text (not_found ?url)
      = ''Client error '' @ [CHR 0x27] @ ''404 Not Found'' @ [CHR 0x27]
          @ '' for url '' @ [CHR 0x27]
          @ ''https://export.arxiv.org/api/query?search_query=cat%3Acs.AI&start=0''
          @ ''&max_results=10&sortBy=relevance&sortOrder=ascending'' @ [CHR 0x27] @ [NL]
          @ ''For more information check: ''
          @ ''https://developer.mozilla.org/en-US/docs/Web/HTTP/Status/404''"
    by code_simp
  have get_ok: "http_get feed_env ?url = Inr ok_response"
    by (simp add: feed_env_def)
  have status_ok: "200 \<le> status_code ok_response \<and> status_code ok_response \<le> 299"
    by (simp add: ok_response_def)
  have n_ok: "length (parse_response feed_env (content ok_response)) = 2"
    by code_simp
  have "search not_found_env ''cat:cs.AI'' 10 ''relevance''
      = \<lparr>query = ''cat:cs.AI'', total_results = 0, papers = [],
         error = Some (status_error_text (not_found ?url))\<rparr>"
    using search_never_raises [of not_found_env "''cat:cs.AI''" 10 "''relevance''"] get_nf status_nf
    by blast
  then have failed: "search not_found_env ''cat:cs.AI'' 10 ''relevance''
     = \<lparr>query = ''cat:cs.AI'', total_results = 0, papers = [],
        error = Some (''Client error '' @ [CHR 0x27] @ ''404 Not Found'' @ [CHR 0x27]
          @ '' for url '' @ [CHR 0x27]
          @ ''https://export.arxiv.org/api/query?search_query=cat%3Acs.AI&start=0''
          @ ''&max_results=10&sortBy=relevance&sortOrder=ascending'' @ [CHR 0x27] @ [NL]
          @ ''For more information check: ''
          @ ''https://developer.mozilla.org/en-US/docs/Web/HTTP/Status/404'')\<rparr>"
    unfolding text_nf .
  have "search feed_env ''cat:cs.AI'' 10 ''relevance''
      = \<lparr>query = ''cat:cs.AI'', total_results = length (parse_response feed_env (content ok_response)),
         papers = parse_response feed_env (content ok_response), error = None\<rparr>"
    using search_never_raises [of feed_env "''cat:cs.AI''" 10 "''relevance''"] get_ok status_ok
    by blast
  then have found: "total_results (search feed_env ''cat:cs.AI'' 10 ''relevance'') = 2
     \<and> error (search feed_env ''cat:cs.AI'' 10 ''relevance'') = None"
    using n_ok by simp
  from failed found show ?thesis by blast
qed

text \<open>
  C1 as stated asks for a non-empty error after every failure. A client exception whose
  \<open>str\<close> is empty leaves the empty string in \<open>error\<close>.
\<close>

theorem search_error_text_counterexample:
  "search timeout_env ''cat:cs.AI'' 10 ''relevance''
     = \<lparr>query = ''cat:cs.AI'', total_results = 0, papers = [], error = Some []\<rparr>"
  by (simp add: search_def search_failed_def timeout_env_def)

subsection \<open>The response parser\<close>

lemma parse_entries_acc:
  "parse_entries es acc = acc @ concat (map (\<lambda>entry. case parse_paper_entry entry of None \<Rightarrow> [] | Some p \<Rightarrow> [p]) es)"
  by (induction es arbitrary: acc) (auto split: option.splits)

text \<open>
  C6. \<open>_parse_response\<close> is a total function into lists of papers. A document that the XML
  parser rejects gives the empty list. Otherwise each \<open>entry\<close> element contributes its
  paper, or nothing when its extraction raised, independently of the entries around it.
  An entry with no \<open>title\<close> element gives a paper titled \<open>Unknown Title\<close>; when such an entry
  is skipped, the exception came from an author name, the summary or the publication
  date, never from the missing title.
\<close>

theorem parse_response_lenient:
  "(\<forall>e. fromstring env bytes = Inl e \<longrightarrow> parse_response env bytes = [])
   \<and> (\<forall>root. fromstring env bytes = Inr root \<longrightarrow>
         parse_response env bytes
           = concat (map (\<lambda>entry. case parse_paper_entry entry of None \<Rightarrow> [] | Some p \<Rightarrow> [p])
                         (findall_descendants (atom ''entry'') root)))
   \<and> (\<forall>entry. find_child (atom ''title'') entry = None \<longrightarrow>
         (case parse_paper_entry entry of
            Some p \<Rightarrow> title p = ''Unknown Title''
          | None \<Rightarrow> entry_authors (findall_children (atom ''author'') entry) [] = None
                    \<or> entry_abstract entry = None \<or> entry_published entry = None))"
  by (auto simp: parse_response_def parse_entries_acc parse_paper_entry_def entry_title_def Let_def
           split: sum.splits option.splits Option.bind_splits)

theorem parse_response_lenient_witness:
  "parse_response garbage_env ''<feed'' = []
   \<and> map title (parse_response feed_env ''<feed/>'') = [''Deep Learning for Graphs'', ''Unknown Title'']
   \<and> parse_paper_entry entry_broken = None
   \<and> map_option title (parse_paper_entry entry_untitled) = Some ''Unknown Title''"
proof -
  note inst = parse_response_lenient [of feed_env "''<feed/>''"]
  have garbage: "parse_response garbage_env ''<feed'' = []"
    using parse_response_lenient [of garbage_env "''<feed''"] by (simp add: garbage_env_def)
  have entries: "findall_descendants (atom ''entry'') sample_feed
      = [entry_full, entry_broken, entry_untitled]"
    by code_simp
  have full: "map_option title (parse_paper_entry entry_full) = Some ''Deep Learning for Graphs''"
    by code_simp
  have broken: "parse_paper_entry entry_broken = None"
    by code_simp
  have no_title: "find_child (atom ''title'') entry_untitled = None"
    by code_simp
  have parsed: "parse_paper_entry entry_untitled \<noteq> None"
    by code_simp
  have untitled: "map_option title (parse_paper_entry entry_untitled) = Some ''Unknown Title''"
  proof -
    from inst no_title have "case parse_paper_entry entry_untitled of
            Some p \<Rightarrow> title p = ''Unknown Title''
          | None \<Rightarrow> entry_authors (findall_children (atom ''author'') entry_untitled) [] = None
                    \<or> entry_abstract entry_untitled = None \<or> entry_published entry_untitled = None"
      by blast
    with parsed show ?thesis by (auto split: option.splits)
  qed
  have "parse_response feed_env ''<feed/>''
      = concat (map (\<lambda>entry. case parse_paper_entry entry of None \<Rightarrow> [] | Some p \<Rightarrow> [p])
                    [entry_full, entry_broken, entry_untitled])"
    using inst entries by (simp add: feed_env_def)
  then have "map title (parse_response feed_env ''<feed/>'')
      = [''Deep Learning for Graphs'', ''Unknown Title'']"
    using full broken untitled by (auto split: option.splits)
  with garbage broken untitled show ?thesis by simp
qed

subsection \<open>\<open>get_paper\<close>\<close>

lemma clean_id_prefix: "clean_id (''arXiv:'' @ s) = clean_id s"
  using replace_prefix [of "''arXiv:''" s "[]"] by (simp add: clean_id_def)

text \<open>
  C5, amended. \<open>get_paper\<close> requests \<open>id_list=\<close> with the normalised id and returns the
  first parsed paper, or \<open>None\<close> when the client raises, the status is outside 200 to 299
  or no paper is parsed. The normalised id is the id with every occurrence of \<open>arXiv:\<close>
  deleted, at the front or further in, then every \<open>v1\<close>, then every \<open>v2\<close>, then every \<open>v3\<close>.
  It agrees with the reading of the specification (prefix only) on every id in which
  \<open>arXiv:\<close> occurs at the front at most; an id with none of the four substrings, such as
  one that ends in \<open>v4\<close>, is sent as it is.
\<close>

theorem get_paper_normalizes:
  "get_paper env arxiv_id =
     (case http_get env (base_url @ ''?id_list='' @ clean_id arxiv_id) of
        Inl e \<Rightarrow> None
      | Inr r \<Rightarrow>
          if 200 \<le> status_code r \<and> status_code r \<le> 299
          then (case parse_response env (content r) of [] \<Rightarrow> None | p # _ \<Rightarrow> Some p)
          else None)
   \<and> clean_id arxiv_id
       = replace (replace (replace (replace arxiv_id ''arXiv:'' []) ''v1'' []) ''v2'' []) ''v3'' []
   \<and> clean_id (''arXiv:'' @ arxiv_id) = clean_id arxiv_id
   \<and> (\<forall>a b. arxiv_id = a @ ''arXiv:'' @ b \<and> \<not> occurs ''arXiv:'' (a @ ''arXiv'') \<longrightarrow>
         replace arxiv_id ''arXiv:'' [] = a @ replace b ''arXiv:'' [])
   \<and> (\<not> occurs ''arXiv:'' arxiv_id \<longrightarrow>
         clean_id arxiv_id = spec_clean_id arxiv_id
         \<and> clean_id (''arXiv:'' @ arxiv_id) = spec_clean_id (''arXiv:'' @ arxiv_id))
   \<and> (\<not> occurs ''arXiv:'' arxiv_id \<and> \<not> occurs ''v1'' arxiv_id \<and> \<not> occurs ''v2'' arxiv_id
        \<and> \<not> occurs ''v3'' arxiv_id \<longrightarrow> clean_id arxiv_id = arxiv_id)"
proof -
  have call: "get_paper env arxiv_id =
     (case http_get env (base_url @ ''?id_list='' @ clean_id arxiv_id) of
        Inl e \<Rightarrow> None
      | Inr r \<Rightarrow>
          if 200 \<le> status_code r \<and> status_code r \<le> 299
          then (case parse_response env (content r) of [] \<Rightarrow> None | p # _ \<Rightarrow> Some p)
          else None)"
    by (simp add: get_paper_def raise_for_status_def split: sum.splits)
  have inner: "\<forall>a b. arxiv_id = a @ ''arXiv:'' @ b \<and> \<not> occurs ''arXiv:'' (a @ ''arXiv'') \<longrightarrow>
         replace arxiv_id ''arXiv:'' [] = a @ replace b ''arXiv:'' []"
    using replace_first [of "''arXiv:''" _ _ "[]"] by auto
  have spec: "clean_id arxiv_id = spec_clean_id arxiv_id
         \<and> clean_id (''arXiv:'' @ arxiv_id) = spec_clean_id (''arXiv:'' @ arxiv_id)"
    if "\<not> occurs ''arXiv:'' arxiv_id"
  proof -
    have "\<not> startswith arxiv_id ''arXiv:''"
      using that by (cases arxiv_id) (auto simp: startswith_def)
    then have "spec_clean_id arxiv_id = clean_id arxiv_id"
      using that by (simp add: spec_clean_id_def clean_id_def replace_absent)
    moreover have "spec_clean_id (''arXiv:'' @ arxiv_id) = clean_id arxiv_id"
      using that by (simp add: spec_clean_id_def clean_id_def replace_absent startswith_def)
    ultimately show ?thesis using clean_id_prefix [of arxiv_id] by simp
  qed
  have same: "clean_id arxiv_id = arxiv_id"
    if "\<not> occurs ''arXiv:'' arxiv_id \<and> \<not> occurs ''v1'' arxiv_id \<and> \<not> occurs ''v2'' arxiv_id
        \<and> \<not> occurs ''v3'' arxiv_id"
    using that by (simp add: clean_id_def replace_absent)
  have unfolded: "clean_id arxiv_id
       = replace (replace (replace (replace arxiv_id ''arXiv:'' []) ''v1'' []) ''v2'' []) ''v3'' []"
    by (simp add: clean_id_def)
  show ?thesis
    using call unfolded inner spec same clean_id_prefix [of arxiv_id] by blast
qed

theorem get_paper_normalizes_witness:
  "clean_id ''2301.00001v4'' = ''2301.00001v4''
   \<and> clean_id ''arXiv:2301.00001v2'' = spec_clean_id ''arXiv:2301.00001v2''
   \<and> map_option paper_id (get_paper feed_env ''arXiv:2301.00001v2'') = Some ''2301.00001v1''
   \<and> get_paper not_found_env ''2301.00001'' = None"
proof -
  have absent: "\<not> occurs ''arXiv:'' ''2301.00001v4'' \<and> \<not> occurs ''v1'' ''2301.00001v4''
      \<and> \<not> occurs ''v2'' ''2301.00001v4'' \<and> \<not> occurs ''v3'' ''2301.00001v4''"
    by code_simp
  have a2: "\<not> occurs ''arXiv:'' ''2301.00001v2''"
    by code_simp
  have first: "map_option paper_id
      (case parse_response feed_env (content ok_response) of [] \<Rightarrow> None | p # _ \<Rightarrow> Some p)
        = Some ''2301.00001v1''"
    by code_simp
  have v4: "clean_id ''2301.00001v4'' = ''2301.00001v4''"
    using get_paper_normalizes [of feed_env "''2301.00001v4''"] absent by blast
  have "clean_id (''arXiv:'' @ ''2301.00001v2'') = spec_clean_id (''arXiv:'' @ ''2301.00001v2'')"
    using get_paper_normalizes [of feed_env "''2301.00001v2''"] a2 by blast
  then have v2: "clean_id ''arXiv:2301.00001v2'' = spec_clean_id ''arXiv:2301.00001v2''"
    by simp
  have "get_paper feed_env ''arXiv:2301.00001v2'' =
     (case http_get feed_env (base_url @ ''?id_list='' @ clean_id ''arXiv:2301.00001v2'') of
        Inl e \<Rightarrow> None
      | Inr r \<Rightarrow>
          if 200 \<le> status_code r \<and> status_code r \<le> 299
          then (case parse_response feed_env (content r) of [] \<Rightarrow> None | p # _ \<Rightarrow> Some p)
          else None)"
    using get_paper_normalizes [of feed_env "''arXiv:2301.00001v2''"] by blast
  then have "get_paper feed_env ''arXiv:2301.00001v2''
      = (case parse_response feed_env (content ok_response) of [] \<Rightarrow> None | p # _ \<Rightarrow> Some p)"
    by (simp add: feed_env_def ok_response_def)
  with first have found: "map_option paper_id (get_paper feed_env ''arXiv:2301.00001v2'')
      = Some ''2301.00001v1''"
    by simp
  have "get_paper not_found_env ''2301.00001'' =
     (case http_get not_found_env (base_url @ ''?id_list='' @ clean_id ''2301.00001'') of
        Inl e \<Rightarrow> None
      | Inr r \<Rightarrow>
          if 200 \<le> status_code r \<and> status_code r \<le> 299
          then (case parse_response not_found_env (content r) of [] \<Rightarrow> None | p # _ \<Rightarrow> Some p)
          else None)"
    using get_paper_normalizes [of not_found_env "''2301.00001''"] by blast
  then have missing: "get_paper not_found_env ''2301.00001'' = None"
    by (simp add: not_found_env_def not_found_def)
  from v4 v2 found missing show ?thesis by blast
qed

text \<open>
  C5 as stated deletes \<open>arXiv:\<close> as a prefix. The code also deletes it inside the id.
\<close>

theorem clean_id_prefix_counterexample:
  "clean_id ''abs/arXiv:2301.00001'' = ''abs/2301.00001''
   \<and> spec_clean_id ''abs/arXiv:2301.00001'' = ''abs/arXiv:2301.00001''"
  by code_simp

subsection \<open>\<open>find_related_papers\<close>\<close>

lemma length_slice_to: "0 \<le> n \<Longrightarrow> int (length (slice_to n xs)) \<le> n"
  by (simp add: slice_to_def)

lemma set_slice_to: "set (slice_to n xs) \<subseteq> set xs"
  by (auto simp: slice_to_def dest: in_set_takeD)

text \<open>
  C8, amended. \<open>find_related_papers\<close> searches for \<open>max_results + 5\<close> results sorted by
  relevance, returns no paper with the id of the seed, returns the empty list when the
  search failed, and returns at most \<open>max_results\<close> papers when \<open>max_results\<close> is not
  negative.
\<close>

theorem find_related_papers_bounds:
  "find_related_papers env paper n
     = slice_to n (filter (\<lambda>p. paper_id p \<noteq> paper_id paper)
                          (papers (search env (related_query paper) (n + 5) ''relevance'')))
   \<and> search_url (related_query paper) (n + 5) ''relevance''
       = base_url @ ''?search_query='' @ quote_plus (related_query paper)
         @ ''&start=0&max_results='' @ str_int (n + 5) @ ''&sortBy=relevance&sortOrder=ascending''
   \<and> (\<forall>p \<in> set (find_related_papers env paper n). paper_id p \<noteq> paper_id paper)
   \<and> (0 \<le> n \<longrightarrow> int (length (find_related_papers env paper n)) \<le> n)
   \<and> (error (search env (related_query paper) (n + 5) ''relevance'') \<noteq> None \<longrightarrow>
        find_related_papers env paper n = [])"
proof -
  let ?found = "papers (search env (related_query paper) (n + 5) ''relevance'')"
  let ?kept = "filter (\<lambda>p. paper_id p \<noteq> paper_id paper) ?found"
  have result: "find_related_papers env paper n = slice_to n ?kept"
    by (simp add: find_related_papers_def)
  have url: "search_url (related_query paper) (n + 5) ''relevance''
       = base_url @ ''?search_query='' @ quote_plus (related_query paper)
         @ ''&start=0&max_results='' @ str_int (n + 5) @ ''&sortBy=relevance&sortOrder=ascending''"
    by (simp add: search_url_def)
  have seed: "\<forall>p \<in> set (find_related_papers env paper n). paper_id p \<noteq> paper_id paper"
    using set_slice_to [of n ?kept] result by auto
  have bound: "0 \<le> n \<longrightarrow> int (length (find_related_papers env paper n)) \<le> n"
    using length_slice_to [of n ?kept] result by simp
  have failure: "error (search env (related_query paper) (n + 5) ''relevance'') \<noteq> None \<longrightarrow>
        find_related_papers env paper n = []"
  proof
    assume "error (search env (related_query paper) (n + 5) ''relevance'') \<noteq> None"
    then have "?found = []"
      by (auto simp: search_def search_failed_def Let_def split: sum.splits)
    then show "find_related_papers env paper n = []"
      using result by (simp add: slice_to_def)
  qed
  from result url seed bound failure show ?thesis by blast
qed

theorem find_related_papers_bounds_witness:
  "map paper_id (find_related_papers feed_env seed_paper 3) = [''2301.00001v1'']
   \<and> (0::int) \<le> 3 \<and> int (length (find_related_papers feed_env seed_paper 3)) \<le> 3
   \<and> find_related_papers not_found_env seed_paper 3 = []"
proof -
  have ids: "map paper_id (find_related_papers feed_env seed_paper 3) = [''2301.00001v1'']"
    by code_simp
  have failed: "error (search not_found_env (related_query seed_paper) (3 + 5) ''relevance'') \<noteq> None"
    by code_simp
  have three: "(0::int) \<le> 3"
    by simp
  have bounded: "int (length (find_related_papers feed_env seed_paper 3)) \<le> 3"
    using find_related_papers_bounds [of feed_env seed_paper 3] three by blast
  have empty: "find_related_papers not_found_env seed_paper 3 = []"
    using find_related_papers_bounds [of not_found_env seed_paper 3] failed by blast
  from ids three bounded empty show ?thesis by blast
qed

text \<open>
  C8 as stated bounds the length by \<open>max_results\<close> for every \<open>max_results\<close>. For \<open>-1\<close> the
  slice \<open>[:max_results]\<close> drops the last paper and keeps the others.
\<close>

theorem find_related_papers_negative_counterexample:
  "length (find_related_papers feed_env absent_paper (- 1)) = 1
   \<and> \<not> int (length (find_related_papers feed_env absent_paper (- 1))) \<le> - 1"
  by code_simp

text \<open>
  C10. In \<open>find_related_papers\<close>, a seed paper with at least one category always gives at
  least one \<open>cat:\<close> clause, the query is then the \<open>OR\<close>-join of the clauses, and the arm
  that would send the first category alone is never evaluated. The fallback is evaluated
  exactly when the paper has no categories and no qualifying title words, and the query
  is then the bare string \<open>cs.AI\<close>, with no \<open>cat:\<close> in front.
\<close>

theorem related_query_fallback:
  "(categories paper \<noteq> [] \<longrightarrow>
      search_terms paper \<noteq> []
      \<and> hd (search_terms paper) = ''cat:'' @ hd (categories paper)
      \<and> related_branch paper = Joined
      \<and> related_query paper = join '' OR '' (search_terms paper))
   \<and> related_branch paper \<noteq> FirstCategory
   \<and> (related_branch paper \<noteq> Joined \<longleftrightarrow> categories paper = [] \<and> key_words paper = [])
   \<and> (categories paper = [] \<and> key_words paper = [] \<longrightarrow>
        related_query paper = ''cs.AI'' \<and> \<not> startswith (related_query paper) ''cat:'')"
proof -
  have terms_empty: "search_terms paper = [] \<longleftrightarrow> categories paper = [] \<and> key_words paper = []"
    by (auto simp: search_terms_def)
  have first: "categories paper \<noteq> [] \<Longrightarrow>
      hd (search_terms paper) = ''cat:'' @ hd (categories paper)"
    by (cases "categories paper") (simp_all add: search_terms_def)
  have bare: "\<not> startswith ''cs.AI'' ''cat:''"
    by (simp add: startswith_def)
  show ?thesis
    using terms_empty first bare
    by (auto simp: related_branch_def related_query_def)
qed

theorem related_query_fallback_witness:
  "related_query \<lparr>paper_id = ''2301.00001'', title = ''On the Sum'', authors = [],
      abstract = [], published = [], categories = [], arxiv_url = Some [], pdf_url = []\<rparr>
     = ''cs.AI''
   \<and> related_query \<lparr>paper_id = ''2301.00001'', title = ''Deep Learning for Graphs'', authors = [],
      abstract = [], published = [], categories = [''cs.LG'', ''stat.ML'', ''cs.AI''],
      arxiv_url = Some [], pdf_url = []\<rparr>
     = join '' OR '' [''cat:cs.LG'', ''cat:stat.ML'', [CHR 0x22] @ ''deep'' @ [CHR 0x22],
                      [CHR 0x22] @ ''learning'' @ [CHR 0x22], [CHR 0x22] @ ''graphs'' @ [CHR 0x22]]"
proof -
  let ?p = "\<lparr>paper_id = ''2301.00001'', title = ''On the Sum'', authors = [],
      abstract = [], published = [], categories = [], arxiv_url = Some [], pdf_url = []\<rparr>"
  let ?q = "\<lparr>paper_id = ''2301.00001'', title = ''Deep Learning for Graphs'', authors = [],
      abstract = [], published = [], categories = [''cs.LG'', ''stat.ML'', ''cs.AI''],
      arxiv_url = Some [], pdf_url = []\<rparr>"
  have kw: "key_words ?p = []"
    by code_simp
  have kq: "key_words ?q = [''deep'', ''learning'', ''graphs'']"
    by code_simp
  have "related_query ?p = ''cs.AI''"
    using related_query_fallback [of ?p] kw by simp
  moreover have "related_query ?q = join '' OR '' (search_terms ?q)"
    using related_query_fallback [of ?q] by simp
  ultimately show ?thesis
    using kq by (simp add: search_terms_def)
qed

subsection \<open>\<open>_analyze_publication_count\<close>\<close>

lemma map_of_count_months:
  "map_of (count_months ps d) k =
     (if month_count k ps = 0 then map_of d k else Some (dict_get d k 0 + month_count k ps))"
proof (induction ps arbitrary: d)
  case Nil
  then show ?case by (simp add: month_count_def)
next
  case (Cons p ps)
  show ?case
    by (simp add: Cons.IH Let_def update_conv' month_count_def dict_get_def)
qed

lemma keys_count_months:
  "fst ` set (count_months ps d)
     = fst ` set d \<union> (\<lambda>p. take 7 (published p)) ` {p \<in> set ps. published p \<noteq> []}"
  by (induction ps arbitrary: d) (auto simp: Let_def dom_update)

lemma distinct_count_months:
  "distinct (map fst d) \<Longrightarrow> distinct (map fst (count_months ps d))"
  by (induction ps arbitrary: d) (auto simp: Let_def distinct_update)

lemma update_fresh: "k \<notin> fst ` set al \<Longrightarrow> AList.update k v al = al @ [(k, v)]"
  by (induction al) auto

lemma foldl_update_distinct:
  "distinct (map fst xs) \<Longrightarrow> fst ` set acc \<inter> fst ` set xs = {} \<Longrightarrow>
     foldl (\<lambda>d (k, v). AList.update k v d) acc xs = acc @ xs"
proof (induction xs arbitrary: acc)
  case Nil
  then show ?case by simp
next
  case (Cons x xs)
  obtain k v where x: "x = (k, v)" by (cases x)
  have fresh: "k \<notin> fst ` set acc"
    using Cons.prems(2) x by auto
  have "fst ` set (acc @ [(k, v)]) \<inter> fst ` set xs = {}"
    using Cons.prems x by auto
  then have "foldl (\<lambda>d (k, v). AList.update k v d) (acc @ [(k, v)]) xs = (acc @ [(k, v)]) @ xs"
    using Cons.IH [of "acc @ [(k, v)]"] Cons.prems(1) by simp
  then show ?case
    using x fresh by (simp add: update_fresh)
qed

lemma dict_of_items_distinct: "distinct (map fst xs) \<Longrightarrow> dict_of_items xs = xs"
  using foldl_update_distinct [of xs "[]"] by (simp add: dict_of_items_def)

lemma distinct_fst_sort:
  fixes xs :: "('a::linorder \<times> 'b::linorder) list"
  shows "distinct (map fst xs) \<Longrightarrow> distinct (map fst (sort xs))"
  by (simp add: distinct_map)

lemma sorted_fst_of_sorted:
  fixes xs :: "('a::linorder \<times> 'b::linorder) list"
  shows "sorted xs \<Longrightarrow> sorted (map fst xs)"
  by (induction xs) (auto simp: less_eq_prod_def)

lemma monthly_counts_sorted_eq: "monthly_counts_sorted ps = sort (count_months ps [])"
  by (simp add: monthly_counts_sorted_def dict_of_items_distinct distinct_fst_sort distinct_count_months)

lemma month_count_key:
  "k \<noteq> [] \<Longrightarrow> month_count k ps = length (filter (\<lambda>p. take 7 (published p) = k) ps)"
  unfolding month_count_def by (rule arg_cong [where f = length], rule filter_cong) auto

lemma monthly_counts_keys:
  "set (map fst (monthly_counts_sorted ps))
     = (\<lambda>p. take 7 (published p)) ` {p \<in> set ps. published p \<noteq> []}"
  using keys_count_months [of ps "[]"] by (simp add: monthly_counts_sorted_eq)

lemma monthly_counts_strict: "sorted_wrt (<) (map fst (monthly_counts_sorted ps))"
proof -
  have "distinct (map fst (count_months ps []))"
    by (simp add: distinct_count_months)
  then have "distinct (map fst (monthly_counts_sorted ps))"
    unfolding monthly_counts_sorted_eq by (rule distinct_fst_sort)
  moreover have "sorted (map fst (monthly_counts_sorted ps))"
    unfolding monthly_counts_sorted_eq by (rule sorted_fst_of_sorted) simp
  ultimately show ?thesis
    by (simp add: strict_sorted_iff)
qed

lemma monthly_counts_value:
  assumes "(k, c) \<in> set (monthly_counts_sorted ps)"
  shows "c = length (filter (\<lambda>p. take 7 (published p) = k) ps)"
proof -
  have mem: "(k, c) \<in> set (count_months ps [])"
    using assms by (simp add: monthly_counts_sorted_eq)
  have "distinct (map fst (count_months ps []))"
    by (simp add: distinct_count_months)
  with mem have look: "map_of (count_months ps []) k = Some c"
    by simp
  have "k \<in> fst ` set (count_months ps [])"
    using mem by force
  then have "k \<noteq> []"
    unfolding keys_count_months by auto
  have "month_count k ps \<noteq> 0"
    using look map_of_count_months [of ps "[]" k] by (auto split: if_splits)
  then have "c = month_count k ps"
    using look map_of_count_months [of ps "[]" k] by (simp add: dict_get_def)
  then show ?thesis
    using \<open>k \<noteq> []\<close> by (simp add: month_count_key)
qed

lemma filter_witness: "0 < length (filter P xs) \<Longrightarrow> \<exists>x \<in> set xs. P x"
  by (induction xs) (auto split: if_splits)

lemma two_months:
  assumes less: "k1 < k2"
    and n1: "length (filter (\<lambda>p. take 7 (published p) = k1) ps) = n1" "0 < n1"
    and n2: "length (filter (\<lambda>p. take 7 (published p) = k2) ps) = n2" "0 < n2"
    and nonempty: "k1 \<noteq> []" "k2 \<noteq> []"
    and only: "\<forall>p \<in> set ps. take 7 (published p) = k1 \<or> take 7 (published p) = k2"
  shows "monthly_counts_sorted ps = [(k1, n1), (k2, n2)]"
proof -
  let ?r = "monthly_counts_sorted ps"
  obtain a where a: "a \<in> set ps" "take 7 (published a) = k1"
    using filter_witness [of "\<lambda>p. take 7 (published p) = k1" ps] n1 by auto
  obtain b where b: "b \<in> set ps" "take 7 (published b) = k2"
    using filter_witness [of "\<lambda>p. take 7 (published p) = k2" ps] n2 by auto
  have pub: "published p \<noteq> []" if "p \<in> set ps" for p
    using only nonempty that by fastforce
  have "k1 \<in> set (map fst ?r)"
    unfolding monthly_counts_keys using a pub by force
  moreover have "k2 \<in> set (map fst ?r)"
    unfolding monthly_counts_keys using b pub by force
  moreover have "set (map fst ?r) \<subseteq> {k1, k2}"
    unfolding monthly_counts_keys using only by auto
  ultimately have "set (map fst ?r) = set [k1, k2]"
    by auto
  moreover have "sorted_wrt (<) [k1, k2]"
    using less by simp
  ultimately have keys: "map fst ?r = [k1, k2]"
    using monthly_counts_strict [of ps] strict_sorted_equal by blast
  then obtain c1 c2 where r: "?r = [(k1, c1), (k2, c2)]"
    by (auto simp: map_eq_Cons_conv)
  have "c1 = n1"
    using monthly_counts_value [of k1 c1 ps] r n1 by simp
  moreover have "c2 = n2"
    using monthly_counts_value [of k2 c2 ps] r n2 by simp
  ultimately show ?thesis
    using r by simp
qed

text \<open>
  C7. The publication count is a mapping under the key \<open>monthly_counts\<close>. Its keys are the
  first seven characters of the \<open>published\<close> field of the papers that have one, each once
  and in strictly ascending lexicographic order, and each key is mapped to the number of
  papers whose \<open>published\<close> field starts with it. For papers published twice in \<open>2024-01\<close>
  and once in \<open>2024-02\<close>, in any order, the mapping is \<open>{"2024-01": 2, "2024-02": 1}\<close>.
\<close>

theorem publication_count_grouped:
  "analyze_publication_count ps = [(''monthly_counts'', monthly_counts_sorted ps)]
   \<and> sorted_wrt (<) (map fst (monthly_counts_sorted ps))
   \<and> set (map fst (monthly_counts_sorted ps))
       = (\<lambda>p. take 7 (published p)) ` {p \<in> set ps. published p \<noteq> []}
   \<and> (\<forall>(k, c) \<in> set (monthly_counts_sorted ps).
         c = length (filter (\<lambda>p. take 7 (published p) = k) ps))
   \<and> (length (filter (\<lambda>p. take 7 (published p) = ''2024-01'') ps) = 2
       \<and> length (filter (\<lambda>p. take 7 (published p) = ''2024-02'') ps) = 1
       \<and> (\<forall>p \<in> set ps. take 7 (published p) = ''2024-01'' \<or> take 7 (published p) = ''2024-02'')
       \<longrightarrow> monthly_counts_sorted ps = [(''2024-01'', 2), (''2024-02'', 1)])"
proof -
  have wrapped: "analyze_publication_count ps = [(''monthly_counts'', monthly_counts_sorted ps)]"
    by (simp add: analyze_publication_count_def)
  have counts: "\<forall>(k, c) \<in> set (monthly_counts_sorted ps).
         c = length (filter (\<lambda>p. take 7 (published p) = k) ps)"
    using monthly_counts_value [of _ _ ps] by blast
  have order: "''2024-01'' < ''2024-02''"
    by simp
  have example: "length (filter (\<lambda>p. take 7 (published p) = ''2024-01'') ps) = 2
       \<and> length (filter (\<lambda>p. take 7 (published p) = ''2024-02'') ps) = 1
       \<and> (\<forall>p \<in> set ps. take 7 (published p) = ''2024-01'' \<or> take 7 (published p) = ''2024-02'')
       \<longrightarrow> monthly_counts_sorted ps = [(''2024-01'', 2), (''2024-02'', 1)]"
    using two_months [OF order, of ps 2 1] by simp
  from wrapped monthly_counts_strict [of ps] monthly_counts_keys [of ps] counts example
  show ?thesis by blast
qed

theorem publication_count_grouped_witness:
  "monthly_counts_sorted
     [seed_paper\<lparr>published := ''2024-02-03''\<rparr>, seed_paper\<lparr>published := ''2024-01-15''\<rparr>,
      seed_paper\<lparr>published := ''2024-01-20''\<rparr>]
     = [(''2024-01'', 2), (''2024-02'', 1)]"
proof -
  let ?ps = "[seed_paper\<lparr>published := ''2024-02-03''\<rparr>, seed_paper\<lparr>published := ''2024-01-15''\<rparr>,
      seed_paper\<lparr>published := ''2024-01-20''\<rparr>]"
  have "length (filter (\<lambda>p. take 7 (published p) = ''2024-01'') ?ps) = 2"
    by simp
  moreover have "length (filter (\<lambda>p. take 7 (published p) = ''2024-02'') ?ps) = 1"
    by simp
  moreover have "\<forall>p \<in> set ?ps. take 7 (published p) = ''2024-01'' \<or> take 7 (published p) = ''2024-02''"
    by simp
  ultimately show ?thesis
    using publication_count_grouped [of ?ps] by blast
qed

subsection \<open>\<open>estimate_citations\<close>\<close>

lemma py_int_empty: "py_int [] = Inr y \<Longrightarrow> False"
  by (simp add: py_int_def)

lemma py_int_separator:
  "py_int ([CHR 0x1C] @ ''202'')
     = Inl (''invalid literal for int() with base 10: '' @ [CHR 0x27, CHR 0x5C] @ ''x1c202''
            @ [CHR 0x27])"
  by code_simp

text \<open>
  C2. For a paper whose \<open>published\<close> field starts with four characters that \<open>int\<close> parses,
  for every current year, every outcome of the two draws and every float arithmetic,
  the estimate has \<open>estimated_citations >= 0\<close>,
  \<open>citations_per_year = round(estimated_citations / age_years, 1)\<close> with
  \<open>age_years = max(1, current_year - pub_year)\<close>, and
  \<open>h_index_contribution = min(estimated_citations, 10)\<close>. The estimate is the base
  \<open>max(0, age_years * draw1 - draw2)\<close>, times 1.5 and truncated when a category is popular.
\<close>

theorem estimate_citations_identities:
  assumes "py_int (take 4 (published paper)) = Inr pub_year"
  shows "let c = estimate_citations fl current_year draw1 draw2 paper;
             age_years = max 1 (current_year - pub_year);
             base = max 0 (age_years * draw1 - draw2)
         in 0 \<le> estimated_citations c
            \<and> citations_per_year c = round1 fl (truediv fl (estimated_citations c) age_years)
            \<and> h_index_contribution c = min (estimated_citations c) 10
            \<and> estimated_citations c = (if is_popular paper then (base * 3) div 2 else base)"
proof -
  have "published paper \<noteq> []"
    using assms py_int_empty by fastforce
  then show ?thesis
    using assms by (simp add: estimate_citations_def Let_def)
qed

theorem estimate_citations_identities_witness:
  "py_int (take 4 (published popular_2020)) = Inr 2020
   \<and> estimated_citations (estimate_citations exact_floats 2026 25 3 popular_2020) = 220
   \<and> citations_per_year (estimate_citations exact_floats 2026 25 3 popular_2020) = (367, 10)
   \<and> h_index_contribution (estimate_citations exact_floats 2026 25 3 popular_2020) = 10
   \<and> estimated_citations (estimate_citations exact_floats 2026 5 20 plain_2020) = 10"
proof -
  have year: "py_int (take 4 (published popular_2020)) = Inr 2020"
    by code_simp
  have year': "py_int (take 4 (published plain_2020)) = Inr 2020"
    by code_simp
  have pop: "is_popular popular_2020"
    by code_simp
  have plain: "\<not> is_popular plain_2020"
    by code_simp
  show ?thesis
    using estimate_citations_identities [OF year, of exact_floats 2026 25 3]
      estimate_citations_identities [OF year', of exact_floats 2026 5 20] year pop plain
    by (simp add: Let_def exact_floats_def round_tenths_def)
qed

subsection \<open>\<open>_export_bibtex\<close>\<close>

lemma replace_char: "replace s [a] new = concat (map (\<lambda>c. if c = a then new else [c]) s)"
  unfolding replace_def by (induction s) (auto simp: startswith_def)

lemma escape_braces_spec: "escape_braces s = spec_escape s"
proof -
  have "replace (concat (map (\<lambda>c. if c = CHR ''{'' then [backslash, CHR ''{''] else [c]) s))
          ''}'' [backslash, CHR ''}''] = spec_escape s"
    unfolding replace_char spec_escape_def
    by (induction s) (auto simp: backslash_def)
  then show ?thesis
    by (simp add: escape_braces_def replace_char)
qed

lemma bibtex_key_spec: "bibtex_key paper = spec_key (paper_id paper)"
proof -
  have "concat (map (\<lambda>c. if c = CHR ''/'' then ''_'' else [c])
          (concat (map (\<lambda>c. if c = CHR ''.'' then ''_'' else [c]) s))) = spec_key s" for s
    unfolding spec_key_def by (induction s) auto
  then show ?thesis
    by (simp add: bibtex_key_def replace_char)
qed

lemma brace_excess_append [simp]: "brace_excess (a @ b) = brace_excess a + brace_excess b"
  by (simp add: brace_excess_def)

lemma brace_excess_Nil [simp]: "brace_excess [] = 0"
  by (simp add: brace_excess_def)

lemma brace_excess_Cons:
  "brace_excess (c # s) = (if c = CHR ''{'' then 1 else if c = CHR ''}'' then - 1 else 0) + brace_excess s"
  by (simp add: brace_excess_def)

lemma brace_excess_spec_escape [simp]: "brace_excess (spec_escape s) = brace_excess s"
  unfolding spec_escape_def by (induction s) (auto simp: brace_excess_Cons backslash_def)

lemma brace_excess_spec_key [simp]: "brace_excess (spec_key s) = brace_excess s"
  unfolding spec_key_def by (induction s) (auto simp: brace_excess_Cons)

lemma brace_excess_join:
  "brace_excess sep = 0 \<Longrightarrow> brace_excess (join sep xs) = sum_list (map brace_excess xs)"
  by (induction sep xs rule: join.induct) auto

lemma brace_excess_no_braces:
  "CHR ''{'' \<notin> set s \<Longrightarrow> CHR ''}'' \<notin> set s \<Longrightarrow> brace_excess s = 0"
  by (simp add: brace_excess_def)

lemma sum_brace_excess_no_braces:
  "\<forall>s \<in> set xs. CHR ''{'' \<notin> set s \<and> CHR ''}'' \<notin> set s \<Longrightarrow> sum_list (map brace_excess xs) = 0"
  by (induction xs) (auto simp: brace_excess_no_braces)

lemma brace_excess_bibtex_entry:
  "brace_excess (bibtex_entry config paper)
     = brace_excess (paper_id paper) * (if include_urls config then 3 else 2)
       + brace_excess (title paper)
       + sum_list (map brace_excess (authors paper))
       + brace_excess (take 4 (published paper))
       + (if include_abstract config then brace_excess (abstract paper) else 0)
       + (if include_categories config then sum_list (map brace_excess (categories paper)) else 0)"
  by (simp add: bibtex_entry_def Let_def escape_braces_spec bibtex_key_spec brace_excess_join
        brace_excess_Cons NL_def)

lemma bibtex_entry_head:
  "\<exists>body. bibtex_entry config paper
      = ''@article{'' @ spec_key (paper_id paper) @ '','' @ [NL]
        @ ''  title={'' @ spec_escape (title paper) @ ''},'' @ [NL] @ body"
  by (simp add: bibtex_entry_def Let_def escape_braces_spec bibtex_key_spec)

lemma bibtex_entry_abstract:
  "include_abstract config \<Longrightarrow>
     \<exists>before after. bibtex_entry config paper
        = before @ '','' @ [NL] @ ''  abstract={'' @ spec_escape (abstract paper) @ ''}'' @ after"
proof -
  assume inc: "include_abstract config"
  define head where "head =
     ''@article{'' @ bibtex_key paper @ '','' @ [NL]
      @ ''  title={'' @ escape_braces (title paper) @ ''},'' @ [NL]
      @ ''  author={'' @ join '' and '' (authors paper) @ ''},'' @ [NL]
      @ ''  journal={arXiv preprint arXiv:'' @ paper_id paper @ ''},'' @ [NL]
      @ ''  year={'' @ (if published paper \<noteq> [] then take 4 (published paper) else []) @ ''}''
      @ (if include_urls config
         then '','' @ [NL] @ ''  url={https://export.arxiv.org/abs/'' @ paper_id paper @ ''}''
         else [])"
  define tail where "tail =
     (if include_categories config \<and> categories paper \<noteq> []
      then '','' @ [NL] @ ''  note={Categories: '' @ join '', '' (categories paper) @ ''}''
      else []) @ [NL] @ ''}''"
  have "bibtex_entry config paper
      = head @ '','' @ [NL] @ ''  abstract={'' @ spec_escape (abstract paper) @ ''}'' @ tail"
    using inc by (simp add: bibtex_entry_def Let_def escape_braces_spec head_def tail_def)
  then show ?thesis by blast
qed

text \<open>
  C3, amended. The BibTeX export joins one entry per paper. An entry starts with
  \<open>@article{\<close> and the paper id in which every \<open>.\<close> and \<open>/\<close> is an underscore; the title,
  and the abstract when it is included, are written with a backslash before every brace.
  The opening braces of an entry exceed its closing braces by as much as they do in the
  texts of the paper that the entry embeds, since an escaped brace is still a brace: the
  two counts are equal whenever those texts hold no braces.
\<close>

theorem bibtex_entry_shape:
  "export_bibtex ps config = join [NL, NL] (map (bibtex_entry config) ps)
   \<and> (\<exists>body. bibtex_entry config paper
         = ''@article{'' @ spec_key (paper_id paper) @ '','' @ [NL]
           @ ''  title={'' @ spec_escape (title paper) @ ''},'' @ [NL] @ body)
   \<and> (include_abstract config \<longrightarrow>
        (\<exists>before after. bibtex_entry config paper
           = before @ '','' @ [NL] @ ''  abstract={'' @ spec_escape (abstract paper) @ ''}'' @ after))
   \<and> brace_excess (bibtex_entry config paper)
       = brace_excess (paper_id paper) * (if include_urls config then 3 else 2)
         + brace_excess (title paper)
         + sum_list (map brace_excess (authors paper))
         + brace_excess (take 4 (published paper))
         + (if include_abstract config then brace_excess (abstract paper) else 0)
         + (if include_categories config then sum_list (map brace_excess (categories paper)) else 0)
   \<and> ((\<forall>s \<in> set ([paper_id paper, title paper, abstract paper, published paper]
                     @ authors paper @ categories paper).
          CHR ''{'' \<notin> set s \<and> CHR ''}'' \<notin> set s) \<longrightarrow>
        count_list (bibtex_entry config paper) (CHR ''{'')
          = count_list (bibtex_entry config paper) (CHR ''}''))"
proof -
  have balanced: "count_list (bibtex_entry config paper) (CHR ''{'')
          = count_list (bibtex_entry config paper) (CHR ''}'')"
    if clean: "\<forall>s \<in> set ([paper_id paper, title paper, abstract paper, published paper]
                     @ authors paper @ categories paper).
          CHR ''{'' \<notin> set s \<and> CHR ''}'' \<notin> set s"
  proof -
    have year: "brace_excess (take 4 (published paper)) = 0"
      using clean by (intro brace_excess_no_braces) (auto dest: in_set_takeD)
    have "brace_excess (bibtex_entry config paper) = 0"
      unfolding brace_excess_bibtex_entry
      using clean year by (simp add: brace_excess_no_braces sum_brace_excess_no_braces)
    then show ?thesis
      by (simp add: brace_excess_def)
  qed
  have joined: "export_bibtex ps config = join [NL, NL] (map (bibtex_entry config) ps)"
    by (simp add: export_bibtex_def)
  from joined bibtex_entry_head [of config paper] bibtex_entry_abstract [of config paper]
    brace_excess_bibtex_entry [of config paper] balanced
  show ?thesis by blast
qed

theorem bibtex_entry_shape_witness:
  "count_list (bibtex_entry bibtex_config seed_paper) (CHR ''{'') = 8
   \<and> count_list (bibtex_entry bibtex_config seed_paper) (CHR ''}'') = 8
   \<and> brace_excess (bibtex_entry bibtex_config brace_paper) = 1"
proof -
  have clean: "\<forall>s \<in> set ([paper_id seed_paper, title seed_paper, abstract seed_paper,
                           published seed_paper] @ authors seed_paper @ categories seed_paper).
          CHR ''{'' \<notin> set s \<and> CHR ''}'' \<notin> set s"
    by (simp add: seed_paper_def)
  have eight: "count_list (bibtex_entry bibtex_config seed_paper) (CHR ''{'') = 8"
    by code_simp
  have "count_list (bibtex_entry bibtex_config seed_paper) (CHR ''{'')
      = count_list (bibtex_entry bibtex_config seed_paper) (CHR ''}'')"
    using bibtex_entry_shape [of "[]" bibtex_config seed_paper] clean by blast
  moreover have "brace_excess (bibtex_entry bibtex_config brace_paper) = 1"
  proof -
    have "brace_excess (bibtex_entry bibtex_config brace_paper)
       = brace_excess (paper_id brace_paper) * (if include_urls bibtex_config then 3 else 2)
         + brace_excess (title brace_paper)
         + sum_list (map brace_excess (authors brace_paper))
         + brace_excess (take 4 (published brace_paper))
         + (if include_abstract bibtex_config then brace_excess (abstract brace_paper) else 0)
         + (if include_categories bibtex_config
            then sum_list (map brace_excess (categories brace_paper)) else 0)"
      using bibtex_entry_shape [of "[]" bibtex_config brace_paper] by blast
    also have "\<dots> = 1"
      by (simp add: brace_paper_def seed_paper_def bibtex_config_def brace_excess_def)
    finally show ?thesis .
  qed
  ultimately show ?thesis using eight by simp
qed

text \<open>
  C3 as stated gives every entry as many \<open>{\<close> as \<open>}\<close>. A title with one opening brace gives
  an entry with ten opening and nine closing braces.
\<close>

theorem bibtex_unbalanced_counterexample:
  "count_list (bibtex_entry bibtex_config brace_paper) (CHR ''{'') = 10
   \<and> count_list (bibtex_entry bibtex_config brace_paper) (CHR ''}'') = 9"
  by code_simp

subsection \<open>\<open>export_papers\<close>\<close>

text \<open>
  C9. \<open>export_papers\<close> raises exactly when \<open>config.format\<close> is none of \<open>bibtex\<close>, \<open>json\<close>,
  \<open>csv\<close> and \<open>markdown\<close>, and what it raises is the \<open>ValueError\<close> that names the format. For
  each of the four formats it returns the string of the exporter of that format, for
  every list of papers and every setting of the three toggles. The four exporters, like
  every other operation of the component in this development, are functions whose
  results have no error value: \<open>export_papers\<close> is the one whose result is a sum.
\<close>

theorem export_papers_dispatch:
  "((\<exists>e. export_papers ps config = Inl e) \<longleftrightarrow> format config \<notin> set supported_formats)
   \<and> (format config \<notin> set supported_formats \<longrightarrow>
        export_papers ps config = Inl (''Unsupported format: '' @ format config))
   \<and> (format config = ''bibtex'' \<longrightarrow> export_papers ps config = Inr (export_bibtex ps config))
   \<and> (format config = ''json'' \<longrightarrow> export_papers ps config = Inr (export_json ps config))
   \<and> (format config = ''csv'' \<longrightarrow> export_papers ps config = Inr (export_csv ps config))
   \<and> (format config = ''markdown'' \<longrightarrow> export_papers ps config = Inr (export_markdown ps config))"
  by (simp add: export_papers_def supported_formats_def)

theorem export_papers_dispatch_witness:
  "export_papers [seed_paper] (bibtex_config\<lparr>format := ''xml''\<rparr>) = Inl ''Unsupported format: xml''
   \<and> export_papers [] (bibtex_config\<lparr>format := ''csv''\<rparr>)
       = Inr (''id,title,authors,published,categories,arxiv_url,pdf_url,abstract'' @ [CHR 0x0D, CHR 0x0A])
   \<and> export_papers [] (bibtex_config\<lparr>format := ''markdown''\<rparr>)
       = Inr (''# arXiv Papers Export'' @ [NL, NL])
   \<and> export_papers [] (bibtex_config\<lparr>format := ''json''\<rparr>) = Inr ''[]''
   \<and> export_papers [] bibtex_config = Inr []"
proof -
  have xml: "format (bibtex_config\<lparr>format := ''xml''\<rparr>) \<notin> set supported_formats"
    by (simp add: supported_formats_def)
  have "export_papers [seed_paper] (bibtex_config\<lparr>format := ''xml''\<rparr>) = Inl ''Unsupported format: xml''"
    using export_papers_dispatch [of "[seed_paper]" "bibtex_config\<lparr>format := ''xml''\<rparr>"] xml
    by simp
  moreover have "export_papers [] (bibtex_config\<lparr>format := ''csv''\<rparr>)
       = Inr (''id,title,authors,published,categories,arxiv_url,pdf_url,abstract'' @ [CHR 0x0D, CHR 0x0A])"
    using export_papers_dispatch [of "[]" "bibtex_config\<lparr>format := ''csv''\<rparr>"]
    by (simp add: export_csv_def csv_row_def csv_fieldnames_def csv_field_def bibtex_config_def)
  moreover have "export_papers [] (bibtex_config\<lparr>format := ''markdown''\<rparr>)
       = Inr (''# arXiv Papers Export'' @ [NL, NL])"
    using export_papers_dispatch [of "[]" "bibtex_config\<lparr>format := ''markdown''\<rparr>"]
    by (simp add: export_markdown_def)
  moreover have "export_papers [] (bibtex_config\<lparr>format := ''json''\<rparr>) = Inr ''[]''"
    using export_papers_dispatch [of "[]" "bibtex_config\<lparr>format := ''json''\<rparr>"]
    by (simp add: export_json_def)
  moreover have "export_papers [] bibtex_config = Inr []"
    using export_papers_dispatch [of "[]" bibtex_config]
    by (simp add: export_bibtex_def bibtex_config_def)
  ultimately show ?thesis by blast
qed

subsection \<open>\<open>_export_json\<close>: writing and reading back\<close>

lemma hex_digits_small: "\<forall>d \<in> set [0 ..< 16]. hex_value (hex_lower d) = Some d"
  by code_simp

lemma hex_value_hex_lower: "hex_value (hex_lower d) = Some (d mod 16)"
proof -
  have "d mod 16 \<in> set [0 ..< 16]"
    by simp
  then have "hex_value (hex_lower (d mod 16)) = Some (d mod 16)"
    using hex_digits_small by blast
  then show ?thesis
    by (simp add: hex_lower_def)
qed

lemma hex_value_zero: "hex_value (CHR ''0'') = Some 0"
  by code_simp

lemma control_chars:
  "char_of (8 :: nat) = CHR 0x08" "char_of (12 :: nat) = CHR 0x0C" "char_of (10 :: nat) = CHR 0x0A"
  "char_of (13 :: nat) = CHR 0x0D" "char_of (9 :: nat) = CHR 0x09"
  by code_simp+

lemma char_of_code: "(of_char c :: nat) = n \<Longrightarrow> c = char_of n"
  by auto

lemma byte_split: "m < 256 \<Longrightarrow> 16 * (m div 16 mod 16) + m mod 16 = (m::nat)"
proof -
  assume "m < 256"
  then have "m div 16 < 16"
    by (simp add: less_mult_imp_div_less)
  then show ?thesis
    by simp
qed

lemma scan_hex:
  "scan (Hex 0 0) acc (CHR ''0'' # CHR ''0'' # hex_lower (of_char c div 16) # hex_lower (of_char c) # rest)
     = scan Plain (c # acc) rest"
proof -
  have small: "(of_char c :: nat) < 256"
    by simp
  show ?thesis
    using small by (simp add: hex_value_zero hex_value_hex_lower byte_split)
qed

lemma json_escape_cases:
  "(\<exists>e. json_escape c = [backslash, e] \<and> e \<noteq> CHR ''u'' \<and> unescape e = Some c)
   \<or> json_escape c
       = [backslash, CHR ''u'', CHR ''0'', CHR ''0'', hex_lower (of_char c div 16), hex_lower (of_char c)]
   \<or> (json_escape c = [c] \<and> c \<noteq> CHR 0x22 \<and> c \<noteq> backslash \<and> 32 \<le> (of_char c :: nat))"
proof -
  have b: "c = CHR 0x08" if "(of_char c :: nat) = 8"
    using char_of_code [OF that] control_chars by simp
  have f: "c = CHR 0x0C" if "(of_char c :: nat) = 12"
    using char_of_code [OF that] control_chars by simp
  have n: "c = CHR 0x0A" if "(of_char c :: nat) = 10"
    using char_of_code [OF that] control_chars by simp
  have r: "c = CHR 0x0D" if "(of_char c :: nat) = 13"
    using char_of_code [OF that] control_chars by simp
  have t: "c = CHR 0x09" if "(of_char c :: nat) = 9"
    using char_of_code [OF that] control_chars by simp
  show ?thesis
    unfolding json_escape_def Let_def unescape_def
    using b f n r t by (simp add: backslash_def)
qed

lemma scan_escape: "scan Plain acc (json_escape c @ rest) = scan Plain (c # acc) rest"
proof -
  consider (short) e where "json_escape c = [backslash, e]" "e \<noteq> CHR ''u''" "unescape e = Some c"
    | (u) "json_escape c
       = [backslash, CHR ''u'', CHR ''0'', CHR ''0'', hex_lower (of_char c div 16), hex_lower (of_char c)]"
    | (plain) "json_escape c = [c]" "c \<noteq> CHR 0x22" "c \<noteq> backslash" "32 \<le> (of_char c :: nat)"
    using json_escape_cases [of c] by blast
  then show ?thesis
  proof cases
    case short
    then show ?thesis by (simp add: backslash_def)
  next
    case u
    then show ?thesis
      using scan_hex [of acc c rest] by (simp add: backslash_def)
  next
    case plain
    then show ?thesis by simp
  qed
qed

lemma scan_escaped:
  "scan Plain acc (concat (map json_escape s) @ CHR 0x22 # rest) = Some (rev acc @ s, rest)"
  by (induction s arbitrary: acc) (simp_all add: scan_escape)

lemma skip_ws_newline_indent: "skip_ws (newline_indent level @ s) = skip_ws s"
proof -
  have "dropWhile is_json_ws (replicate k (CHR '' '') @ s) = dropWhile is_json_ws s" for k
    by (induction k) (simp_all add: is_json_ws_def)
  then show ?thesis
    by (simp add: skip_ws_def newline_indent_def NL_def is_json_ws_def)
qed

lemma skip_ws_stop: "\<not> is_json_ws c \<Longrightarrow> skip_ws (c # s) = c # s"
  by (simp add: skip_ws_def)

lemma dumps_head:
  "\<exists>c cs. dumps level v = c # cs \<and> \<not> is_json_ws c \<and> c \<noteq> CHR '']'' \<and> c \<noteq> CHR ''}''"
  by (cases v) (auto simp: json_string_def is_json_ws_def)

lemma items_text_head:
  "xs \<noteq> [] \<Longrightarrow> \<exists>c cs. items_text level xs rest = c # cs \<and> \<not> is_json_ws c \<and> c \<noteq> CHR '']''"
proof (cases xs)
  case Nil
  then show "xs \<noteq> [] \<Longrightarrow> ?thesis" by simp
next
  case (Cons x ys)
  obtain c cs where "dumps (Suc level) x = c # cs" "\<not> is_json_ws c" "c \<noteq> CHR '']''"
    using dumps_head by blast
  then show ?thesis
    using Cons by (cases ys) auto
qed

lemma join_items_text:
  "xs \<noteq> [] \<Longrightarrow>
     join ('','' @ newline_indent (Suc level)) (map (dumps (Suc level)) xs)
       @ newline_indent level @ '']'' @ rest = items_text level xs rest"
  by (induction level xs rest rule: items_text.induct) auto

lemma join_pairs_text:
  "kvs \<noteq> [] \<Longrightarrow>
     join ('','' @ newline_indent (Suc level))
       (map (\<lambda>kv. json_string (fst kv) @ '': '' @ dumps (Suc level) (snd kv)) kvs)
       @ newline_indent level @ ''}'' @ rest = CHR 0x22 # pairs_text level kvs rest"
  by (induction level kvs rest rule: pairs_text.induct) (auto simp: json_string_def key_text_def)

lemma scanstring_key_text: "scanstring (key_text k @ rest) = Some (k, rest)"
  using scan_escaped [of "[]" k rest] by (simp add: key_text_def scanstring_def)

lemma parse_items_roundtrip:
  assumes "xs \<noteq> []"
    and "\<And>x n level rest. x \<in> set xs \<Longrightarrow> depth_bound x \<le> n \<Longrightarrow>
            parse_value n (dumps level x @ rest) = Some (x, rest)"
    and "sum_list (map (\<lambda>x. Suc (depth_bound x)) xs) \<le> m"
  shows "parse_items m (items_text level xs rest) = Some (xs, rest)"
  using assms
proof (induction level xs rest arbitrary: m rule: items_text.induct)
  case (1 level rest)
  then show ?case by simp
next
  case (2 level x rest)
  then obtain m' where m: "m = Suc m'" "depth_bound x \<le> m'"
    by (cases m) auto
  have "parse_value m' (dumps (Suc level) x @ newline_indent level @ '']'' @ rest)
      = Some (x, newline_indent level @ '']'' @ rest)"
    using 2(2) [of x m'] m by simp
  moreover have "skip_ws (newline_indent level @ '']'' @ rest) = CHR '']'' # rest"
    by (simp add: skip_ws_newline_indent skip_ws_stop is_json_ws_def)
  ultimately show ?case
    using m by simp
next
  case (3 level x y ys rest)
  let ?tail = "items_text level (y # ys) rest"
  obtain m' where m: "m = Suc m'" "depth_bound x \<le> m'"
      "sum_list (map (\<lambda>x. Suc (depth_bound x)) (y # ys)) \<le> m'"
    using 3(4) by (cases m) auto
  have first_item: "parse_value m' (dumps (Suc level) x @ '','' @ newline_indent (Suc level) @ ?tail)
      = Some (x, '','' @ newline_indent (Suc level) @ ?tail)"
    using 3(3) [of x m'] m by simp
  have comma: "skip_ws ('','' @ newline_indent (Suc level) @ ?tail)
      = CHR '','' # newline_indent (Suc level) @ ?tail"
    by (simp add: skip_ws_stop is_json_ws_def)
  have next_item: "skip_ws (newline_indent (Suc level) @ ?tail) = ?tail"
    using items_text_head [of "y # ys" level rest]
    by (auto simp: skip_ws_newline_indent skip_ws_stop)
  have "parse_items m' ?tail = Some (y # ys, rest)"
    using 3(1) [of m'] 3(3) m by simp
  then show ?case
    using m first_item comma next_item by simp
qed

lemma parse_pairs_roundtrip:
  assumes "kvs \<noteq> []"
    and "\<And>kv n level rest. kv \<in> set kvs \<Longrightarrow> depth_bound (snd kv) \<le> n \<Longrightarrow>
            parse_value n (dumps level (snd kv) @ rest) = Some (snd kv, rest)"
    and "sum_list (map (\<lambda>kv. Suc (depth_bound (snd kv))) kvs) \<le> m"
  shows "parse_pairs m (pairs_text level kvs rest) = Some (kvs, rest)"
  using assms
proof (induction level kvs rest arbitrary: m rule: pairs_text.induct)
  case (1 level rest)
  then show ?case by simp
next
  case (2 level kv rest)
  obtain k v where kv: "kv = (k, v)"
    by (cases kv)
  obtain m' where m: "m = Suc m'" "depth_bound v \<le> m'"
    using 2(3) kv by (cases m) auto
  let ?after = "newline_indent level @ ''}'' @ rest"
  have key: "scanstring (key_text k @ '': '' @ dumps (Suc level) v @ ?after)
      = Some (k, '': '' @ dumps (Suc level) v @ ?after)"
    by (rule scanstring_key_text)
  have colon: "skip_ws ('': '' @ dumps (Suc level) v @ ?after)
      = CHR '':'' # CHR '' '' # dumps (Suc level) v @ ?after"
    by (simp add: skip_ws_stop is_json_ws_def)
  have space: "skip_ws (CHR '' '' # dumps (Suc level) v @ ?after) = dumps (Suc level) v @ ?after"
    using dumps_head [of "Suc level" v] by (auto simp: skip_ws_def is_json_ws_def)
  have item: "parse_value m' (dumps (Suc level) v @ ?after) = Some (v, ?after)"
    using 2(2) [of kv m'] m kv by simp
  have close: "skip_ws ?after = CHR ''}'' # rest"
    by (simp add: skip_ws_newline_indent skip_ws_stop is_json_ws_def)
  show ?case
    using m kv key colon space item close by simp
next
  case (3 level kv kv' kvs rest)
  obtain k v where kv: "kv = (k, v)"
    by (cases kv)
  let ?tail = "pairs_text level (kv' # kvs) rest"
  let ?after = "'','' @ newline_indent (Suc level) @ CHR 0x22 # ?tail"
  obtain m' where m: "m = Suc m'" "depth_bound v \<le> m'"
      "sum_list (map (\<lambda>kv. Suc (depth_bound (snd kv))) (kv' # kvs)) \<le> m'"
    using 3(4) kv by (cases m) auto
  have key: "scanstring (key_text k @ '': '' @ dumps (Suc level) v @ ?after)
      = Some (k, '': '' @ dumps (Suc level) v @ ?after)"
    by (rule scanstring_key_text)
  have colon: "skip_ws ('': '' @ dumps (Suc level) v @ ?after)
      = CHR '':'' # CHR '' '' # dumps (Suc level) v @ ?after"
    by (simp add: skip_ws_stop is_json_ws_def)
  have space: "skip_ws (CHR '' '' # dumps (Suc level) v @ ?after) = dumps (Suc level) v @ ?after"
    using dumps_head [of "Suc level" v] by (auto simp: skip_ws_def is_json_ws_def)
  have item: "parse_value m' (dumps (Suc level) v @ ?after) = Some (v, ?after)"
    using 3(3) [of kv m'] m kv by simp
  have comma: "skip_ws ?after = CHR '','' # newline_indent (Suc level) @ CHR 0x22 # ?tail"
    by (simp add: skip_ws_stop is_json_ws_def)
  have quote: "skip_ws (newline_indent (Suc level) @ CHR 0x22 # ?tail) = CHR 0x22 # ?tail"
    by (simp add: skip_ws_newline_indent skip_ws_stop is_json_ws_def)
  have "parse_pairs m' ?tail = Some (kv' # kvs, rest)"
    using 3(1) [of m'] 3(3) m by simp
  then show ?case
    using m kv key colon space item comma quote by simp
qed

lemma parse_value_roundtrip:
  "wf_json v \<Longrightarrow> depth_bound v \<le> n \<Longrightarrow> parse_value n (dumps level v @ rest) = Some (v, rest)"
proof (induction v arbitrary: n level rest)
  case JNull
  then obtain n' where "n = Suc n'"
    by (cases n) auto
  then show ?case by simp
next
  case (JString s)
  then obtain n' where "n = Suc n'"
    by (cases n) auto
  then show ?case
    using scanstring_key_text [of s rest] by (simp add: json_string_def key_text_def)
next
  case (JArray xs)
  obtain n' where n: "n = Suc n'" "sum_list (map (\<lambda>x. Suc (depth_bound x)) xs) \<le> n'"
    using JArray.prems(2) by (cases n) auto
  show ?case
  proof (cases "xs = []")
    case True
    then show ?thesis
      using n by (simp add: skip_ws_stop is_json_ws_def)
  next
    case False
    let ?items = "items_text level xs rest"
    have written: "dumps level (JArray xs) @ rest = CHR ''['' # newline_indent (Suc level) @ ?items"
      using False join_items_text [of xs level rest] by simp
    obtain c cs where head: "?items = c # cs" "\<not> is_json_ws c" "c \<noteq> CHR '']''"
      using items_text_head [OF False] by blast
    have skip: "skip_ws (newline_indent (Suc level) @ ?items) = c # cs"
      using head by (simp add: skip_ws_newline_indent skip_ws_stop)
    have "parse_items n' ?items = Some (xs, rest)"
      using False JArray.IH JArray.prems(1) n by (intro parse_items_roundtrip) auto
    then show ?thesis
      unfolding written using n skip head by simp
  qed
next
  case (JObject kvs)
  obtain n' where n: "n = Suc n'" "sum_list (map (\<lambda>kv. Suc (depth_bound (snd kv))) kvs) \<le> n'"
    using JObject.prems(2) by (cases n) auto
  have keys: "dict_of_items kvs = kvs"
    using JObject.prems(1) by (simp add: dict_of_items_distinct)
  show ?case
  proof (cases "kvs = []")
    case True
    then show ?thesis
      using n by (simp add: skip_ws_stop is_json_ws_def)
  next
    case False
    let ?pairs = "pairs_text level kvs rest"
    have written: "dumps level (JObject kvs) @ rest
        = CHR ''{'' # newline_indent (Suc level) @ CHR 0x22 # ?pairs"
      using False join_pairs_text [of kvs level rest] by simp
    have skip: "skip_ws (newline_indent (Suc level) @ CHR 0x22 # ?pairs) = CHR 0x22 # ?pairs"
      by (simp add: skip_ws_newline_indent skip_ws_stop is_json_ws_def)
    have "parse_pairs n' ?pairs = Some (kvs, rest)"
    proof (rule parse_pairs_roundtrip [OF False _ n(2)])
      fix kv m lv r
      assume "kv \<in> set kvs" "depth_bound (snd kv) \<le> m"
      moreover have "snd kv \<in> Basic_BNFs.snds kv"
        by (cases kv) simp
      moreover have "wf_json (snd kv)"
        using JObject.prems(1) \<open>kv \<in> set kvs\<close> by simp
      ultimately show "parse_value m (dumps lv (snd kv) @ r) = Some (snd kv, r)"
        using JObject.IH by blast
    qed
    then show ?thesis
      unfolding written using n skip keys by simp
  qed
qed

lemma items_text_length:
  "(\<And>x lv. x \<in> set xs \<Longrightarrow> depth_bound x \<le> length (dumps lv x)) \<Longrightarrow>
     sum_list (map (\<lambda>x. Suc (depth_bound x)) xs) + length rest \<le> length (items_text level xs rest)"
proof (induction level xs rest rule: items_text.induct)
  case (1 level rest)
  then show ?case by simp
next
  case (2 level x rest)
  have "depth_bound x \<le> length (dumps (Suc level) x)"
    using 2 by simp
  then show ?case
    by (simp add: newline_indent_def)
next
  case (3 level x y ys rest)
  have "depth_bound x \<le> length (dumps (Suc level) x)"
    using 3(2) by simp
  moreover have "sum_list (map (\<lambda>x. Suc (depth_bound x)) (y # ys)) + length rest
      \<le> length (items_text level (y # ys) rest)"
    using 3 by simp
  ultimately show ?case
    by (simp add: newline_indent_def)
qed

lemma pairs_text_length:
  "(\<And>kv lv. kv \<in> set kvs \<Longrightarrow> depth_bound (snd kv) \<le> length (dumps lv (snd kv))) \<Longrightarrow>
     sum_list (map (\<lambda>kv. Suc (depth_bound (snd kv))) kvs) + length rest
       \<le> length (pairs_text level kvs rest)"
proof (induction level kvs rest rule: pairs_text.induct)
  case (1 level rest)
  then show ?case by simp
next
  case (2 level kv rest)
  have "depth_bound (snd kv) \<le> length (dumps (Suc level) (snd kv))"
    using 2 by simp
  then show ?case
    by (simp add: newline_indent_def)
next
  case (3 level kv kv' kvs rest)
  have "depth_bound (snd kv) \<le> length (dumps (Suc level) (snd kv))"
    using 3(2) by simp
  moreover have "sum_list (map (\<lambda>kv. Suc (depth_bound (snd kv))) (kv' # kvs)) + length rest
      \<le> length (pairs_text level (kv' # kvs) rest)"
    using 3 by simp
  ultimately show ?case
    by (simp add: newline_indent_def)
qed

lemma depth_bound_length: "depth_bound v \<le> length (dumps level v)"
proof (induction v arbitrary: level)
  case JNull
  then show ?case by simp
next
  case (JString s)
  then show ?case by (simp add: json_string_def)
next
  case (JArray xs)
  show ?case
  proof (cases "xs = []")
    case True
    then show ?thesis by simp
  next
    case False
    have "dumps level (JArray xs) = CHR ''['' # newline_indent (Suc level) @ items_text level xs []"
      using False join_items_text [of xs level "[]"] by simp
    moreover have "sum_list (map (\<lambda>x. Suc (depth_bound x)) xs) + length ([] :: string)
        \<le> length (items_text level xs [])"
      using JArray.IH by (intro items_text_length) auto
    ultimately show ?thesis by simp
  qed
next
  case (JObject kvs)
  show ?case
  proof (cases "kvs = []")
    case True
    then show ?thesis by simp
  next
    case False
    have "dumps level (JObject kvs)
        = CHR ''{'' # newline_indent (Suc level) @ CHR 0x22 # pairs_text level kvs []"
      using False join_pairs_text [of kvs level "[]"] by simp
    moreover have "sum_list (map (\<lambda>kv. Suc (depth_bound (snd kv))) kvs) + length ([] :: string)
        \<le> length (pairs_text level kvs [])"
    proof (rule pairs_text_length)
      fix kv lv
      assume "kv \<in> set kvs"
      moreover have "snd kv \<in> Basic_BNFs.snds kv"
        by (cases kv) simp
      ultimately show "depth_bound (snd kv) \<le> length (dumps lv (snd kv))"
        using JObject.IH by blast
    qed
    ultimately show ?thesis by simp
  qed
qed

lemma json_loads_dumps: "wf_json v \<Longrightarrow> json_loads (dumps 0 v) = Some v"
proof -
  assume wf: "wf_json v"
  obtain c cs where head: "dumps 0 v = c # cs" "\<not> is_json_ws c"
    using dumps_head by blast
  then have "skip_ws (dumps 0 v) = dumps 0 v"
    by (simp add: skip_ws_stop)
  moreover have "parse_value (length (dumps 0 v)) (dumps 0 v @ []) = Some (v, [])"
    using wf depth_bound_length by (rule parse_value_roundtrip)
  ultimately show ?thesis
    by (simp add: json_loads_def skip_ws_def)
qed

lemma keys_to_dict:
  "map fst (to_dict p) = [''id'', ''title'', ''authors'', ''abstract'', ''published'', ''categories'',
      ''arxiv_url'', ''pdf_url'']"
  by (simp add: to_dict_def)

lemma distinct_json_paper_dict: "distinct (map fst (json_paper_dict config p))"
proof -
  have "distinct (map fst (to_dict p))"
    unfolding keys_to_dict by simp
  then show ?thesis
    by (simp add: json_paper_dict_def Let_def distinct_delete)
qed

lemma wf_to_dict: "kv \<in> set (to_dict p) \<Longrightarrow> wf_json (snd kv)"
  by (auto simp: to_dict_def split: option.splits)

lemma wf_json_paper_dict: "wf_json (JObject (json_paper_dict config p))"
proof -
  have "set (json_paper_dict config p) \<subseteq> set (to_dict p)"
    by (auto simp: json_paper_dict_def Let_def AList.delete_eq)
  then show ?thesis
    using wf_to_dict distinct_json_paper_dict by auto
qed

lemma map_of_json_paper_dict:
  "map_of (json_paper_dict config p) k =
     (if (k = ''abstract'' \<and> \<not> include_abstract config)
         \<or> (k = ''categories'' \<and> \<not> include_categories config)
         \<or> ((k = ''arxiv_url'' \<or> k = ''pdf_url'') \<and> \<not> include_urls config)
      then None else map_of (to_dict p) k)"
  by (simp add: json_paper_dict_def Let_def delete_conv')

lemma map_of_to_dict:
  "map_of (to_dict p) ''id'' = Some (JString (paper_id p))"
  "map_of (to_dict p) ''title'' = Some (JString (title p))"
  "map_of (to_dict p) ''authors'' = Some (JArray (map JString (authors p)))"
  "map_of (to_dict p) ''abstract'' = Some (JString (abstract p))"
  "map_of (to_dict p) ''published'' = Some (JString (published p))"
  "map_of (to_dict p) ''categories'' = Some (JArray (map JString (categories p)))"
  "map_of (to_dict p) ''arxiv_url'' = Some (case arxiv_url p of None \<Rightarrow> JNull | Some u \<Rightarrow> JString u)"
  "map_of (to_dict p) ''pdf_url'' = Some (JString (pdf_url p))"
  by (simp_all add: to_dict_def)

text \<open>
  C4. For every list of papers and every setting of the toggles, reading the JSON export
  back gives an array with one object per paper, in order. In the object of a paper,
  \<open>id\<close>, \<open>title\<close>, \<open>authors\<close> and \<open>published\<close> hold the fields of the paper; \<open>abstract\<close>,
  \<open>categories\<close>, and \<open>arxiv_url\<close> with \<open>pdf_url\<close>, hold the fields of the paper when their
  toggle is on and are absent when it is off.
\<close>

theorem export_json_roundtrip:
  "json_loads (export_json ps config) = Some (JArray (map (\<lambda>p. JObject (json_paper_dict config p)) ps))
   \<and> length (map (\<lambda>p. JObject (json_paper_dict config p)) ps) = length ps
   \<and> map_of (json_paper_dict config p) ''id'' = Some (JString (paper_id p))
   \<and> map_of (json_paper_dict config p) ''title'' = Some (JString (title p))
   \<and> map_of (json_paper_dict config p) ''authors'' = Some (JArray (map JString (authors p)))
   \<and> map_of (json_paper_dict config p) ''published'' = Some (JString (published p))
   \<and> map_of (json_paper_dict config p) ''abstract''
       = (if include_abstract config then Some (JString (abstract p)) else None)
   \<and> map_of (json_paper_dict config p) ''categories''
       = (if include_categories config then Some (JArray (map JString (categories p))) else None)
   \<and> map_of (json_paper_dict config p) ''arxiv_url''
       = (if include_urls config
          then Some (case arxiv_url p of None \<Rightarrow> JNull | Some u \<Rightarrow> JString u) else None)
   \<and> map_of (json_paper_dict config p) ''pdf_url''
       = (if include_urls config then Some (JString (pdf_url p)) else None)"
proof -
  have "wf_json (JArray (map (\<lambda>p. JObject (json_paper_dict config p)) ps))"
    using wf_json_paper_dict by (simp del: wf_json.simps(4))
  then have parsed: "json_loads (export_json ps config)
      = Some (JArray (map (\<lambda>p. JObject (json_paper_dict config p)) ps))"
    unfolding export_json_def by (rule json_loads_dumps)
  have len: "length (map (\<lambda>p. JObject (json_paper_dict config p)) ps) = length ps"
    by simp
  have fields: "map_of (json_paper_dict config p) ''id'' = Some (JString (paper_id p))"
    "map_of (json_paper_dict config p) ''title'' = Some (JString (title p))"
    "map_of (json_paper_dict config p) ''authors'' = Some (JArray (map JString (authors p)))"
    "map_of (json_paper_dict config p) ''published'' = Some (JString (published p))"
    "map_of (json_paper_dict config p) ''abstract''
       = (if include_abstract config then Some (JString (abstract p)) else None)"
    "map_of (json_paper_dict config p) ''categories''
       = (if include_categories config then Some (JArray (map JString (categories p))) else None)"
    "map_of (json_paper_dict config p) ''arxiv_url''
       = (if include_urls config
          then Some (case arxiv_url p of None \<Rightarrow> JNull | Some u \<Rightarrow> JString u) else None)"
    "map_of (json_paper_dict config p) ''pdf_url''
       = (if include_urls config then Some (JString (pdf_url p)) else None)"
    unfolding map_of_json_paper_dict map_of_to_dict by simp_all
  show ?thesis
    by (intro conjI) (rule parsed len fields)+
qed

theorem export_json_roundtrip_witness:
  "json_loads (export_json [seed_paper, seed_paper\<lparr>arxiv_url := None\<rparr>]
      (bibtex_config\<lparr>format := ''json'', include_abstract := False\<rparr>))
     = Some (JArray
        [JObject [(''id'', JString ''2301.00002v1''), (''title'', JString ''Graph Kernels''),
                  (''authors'', JArray [JString ''Ada Lovelace'']),
                  (''published'', JString ''2023-01-03''),
                  (''categories'', JArray [JString ''cs.LG'']),
                  (''arxiv_url'', JString ''http://arxiv.org/abs/2301.00002v1''),
                  (''pdf_url'', JString [])],
         JObject [(''id'', JString ''2301.00002v1''), (''title'', JString ''Graph Kernels''),
                  (''authors'', JArray [JString ''Ada Lovelace'']),
                  (''published'', JString ''2023-01-03''),
                  (''categories'', JArray [JString ''cs.LG'']),
                  (''arxiv_url'', JNull),
                  (''pdf_url'', JString [])]])"
proof -
  let ?config = "bibtex_config\<lparr>format := ''json'', include_abstract := False\<rparr>"
  let ?ps = "[seed_paper, seed_paper\<lparr>arxiv_url := None\<rparr>]"
  have "json_loads (export_json ?ps ?config)
      = Some (JArray (map (\<lambda>p. JObject (json_paper_dict ?config p)) ?ps))"
    using export_json_roundtrip [of ?ps ?config seed_paper] by blast
  then show ?thesis
    by (simp add: json_paper_dict_def to_dict_def seed_paper_def bibtex_config_def)
qed

end
